theory Spec2Isabelle
  imports Complex_Main "HOL-Library.Product_Lexorder"
begin

chapter \<open>The model\<close>

section \<open>Data model (types.ts)\<close>

text \<open>
  Conventions of the embedding.
  \<^item> A JavaScript \<open>number\<close> is a \<open>rat\<close>: arithmetic is exact where IEEE doubles round. \<open>NaN\<close> and
    the infinities are outside the model, except as results of the decay weight, where a
    division by a TTL of zero produces them (type \<open>number\<close> below). Counters and limits that the
    code only ever increments or compares are \<open>nat\<close>.
  \<^item> A \<open>Date\<close> is its \<open>getTime()\<close> value, an \<open>int\<close> of milliseconds; \<open>Date.now()\<close> and
    \<open>new Date()\<close> are an explicit argument \<open>now\<close> of every function that reads the clock.
  \<^item> A fact id (a UUID string in the source) is a \<open>nat\<close>; the value \<open>uuidv4()\<close> returns is an
    explicit argument.
  \<^item> An optional property \<open>p?: T\<close> of an object that is only read is a \<open>T option\<close>; \<open>x ?? d\<close> is
    \<open>case x of None \<Rightarrow> d | Some v \<Rightarrow> v\<close>. In an object that the object spread copies, such a
    property is a \<open>T optional\<close>, which keeps a property that is present with the value
    \<open>undefined\<close> apart from one that is absent.
  \<^item> A rejected promise or a thrown exception is \<open>Inl e\<close> of a sum type; \<open>await\<close> is sequencing.
  \<^item> A string is the list of the bytes of its UTF-8 encoding (an unpaired surrogate encoded like
    every other code point of its size), so that equal strings are equal lists and an ASCII
    string is the list of its characters.
\<close>

text \<open>
  A property of an object literal or of a spread: absent, present with the value \<open>undefined\<close>,
  or present with a value. \<open>{ ...a, ...b }\<close> takes from \<open>b\<close> every property that is present in
  it, also an undefined one; reading, \<open>x.p\<close> or \<open>x.p ?? d\<close>, does not tell the first two apart.
\<close>

datatype 'a optional = Absent | Undefined | Value 'a

definition spreadProperty :: "'a optional \<Rightarrow> 'a optional \<Rightarrow> 'a optional" where
  "spreadProperty old new = (case new of Absent \<Rightarrow> old | Undefined \<Rightarrow> Undefined | Value v \<Rightarrow> Value v)"

datatype MemoryStage = ShortTerm | Working | LongTerm

datatype Sentiment = Positive | Negative | Neutral

text \<open>
  \<open>MemoryFact\<close>, with the fields the modelled components read or write (the episodic link, the
  emotional context, the graph links, the embedding, the hierarchy level and the metadata are left
  out). \<open>importance\<close> is optional here because the repository's own tests store facts without
  it. \<open>confidence\<close> is required, as the interface declares it, so the default in
  \<open>fact.confidence ?? 0.8\<close> of the decay engine is never taken. Stored facts are copied by the
  object spread, so their optional properties are \<open>optional\<close>.
\<close>

record MemoryFact =
  fid :: nat
  subject :: string
  predicate :: string
  object :: string
  confidence :: rat
  importance :: "rat optional"
  sentiment :: "Sentiment optional"
  source :: string
  createdAt :: int
  updatedAt :: int
  invalidatedAt :: "int option"
  accessCount :: "nat optional"
  memoryStage :: "MemoryStage optional"

text \<open>\<open>FactWithDecay extends MemoryFact\<close> (decay/index.ts).\<close>

record FactWithDecay = MemoryFact +
  reinforcementCount :: "nat option"
  lastReinforcedAt :: "int option"

datatype OpKind = INSERT | UPDATE | DELETE

record MemoryOperation =
  op_kind :: OpKind
  op_subject :: string
  op_predicate :: string
  op_object :: string
  op_reason :: "string option"
  op_confidence :: "rat option"
  op_importance :: "rat option"
  op_sentiment :: "Sentiment option"


record FactFilter =
  flt_subject :: "string option"
  flt_predicate :: "string option"
  flt_predicates :: "string list option"
  flt_validOnly :: "bool option"
  flt_limit :: "nat option"
  flt_orderBy :: "string option"
  flt_orderDir :: "string option"

text \<open>What a storage call throws.\<close>

datatype error = Error string

section \<open>String primitives\<close>

text \<open>
  \<open>String.prototype.toUpperCase\<close> and \<open>toLowerCase\<close> on strings whose letters are ASCII: the 26
  letters are mapped and every other byte is left as it is. What the built-ins map the letters
  beyond ASCII to is the platform's (its version of Unicode), so the functions that upper-case a
  string they are given (the decay engine, the resolver, the validation and the application of
  the extracted operations) take the built-in as a parameter \<open>upper\<close>, and \<open>toUpperCase\<close> is the
  value of that parameter in the evaluations on ASCII strings. \<open>toLowerCase\<close> serves the query
  cache, whose scenario has ASCII queries.
\<close>

definition toUpperChar :: "char \<Rightarrow> char" where
  "toUpperChar c =
     (case map_of (zip ''abcdefghijklmnopqrstuvwxyz'' ''ABCDEFGHIJKLMNOPQRSTUVWXYZ'') c of
        None \<Rightarrow> c | Some u \<Rightarrow> u)"

definition toLowerChar :: "char \<Rightarrow> char" where
  "toLowerChar c =
     (case map_of (zip ''ABCDEFGHIJKLMNOPQRSTUVWXYZ'' ''abcdefghijklmnopqrstuvwxyz'') c of
        None \<Rightarrow> c | Some l \<Rightarrow> l)"

definition toUpperCase :: "string \<Rightarrow> string" where
  "toUpperCase s = map toUpperChar s"

definition toLowerCase :: "string \<Rightarrow> string" where
  "toLowerCase s = map toLowerChar s"

text \<open>
  The code points that \<open>trim()\<close> strips and the class \<open>\s\<close> matches (ECMAScript's WhiteSpace and
  LineTerminator), by the length of their UTF-8 encoding:
  U+0009 to U+000D and U+0020; U+00A0; U+1680, U+2000 to U+200A, U+2028, U+2029, U+202F, U+205F,
  U+3000 and U+FEFF.
\<close>

definition whitespace1 :: "string list" where
  "whitespace1 = [[CHR 0x09], [CHR 0x0A], [CHR 0x0B], [CHR 0x0C], [CHR 0x0D], [CHR 0x20]]"

definition whitespace2 :: "string list" where
  "whitespace2 = [[CHR 0xC2, CHR 0xA0]]"

definition whitespace3 :: "string list" where
  "whitespace3 =
     [[CHR 0xE1, CHR 0x9A, CHR 0x80],
      [CHR 0xE2, CHR 0x80, CHR 0x80], [CHR 0xE2, CHR 0x80, CHR 0x81], [CHR 0xE2, CHR 0x80, CHR 0x82],
      [CHR 0xE2, CHR 0x80, CHR 0x83], [CHR 0xE2, CHR 0x80, CHR 0x84], [CHR 0xE2, CHR 0x80, CHR 0x85],
      [CHR 0xE2, CHR 0x80, CHR 0x86], [CHR 0xE2, CHR 0x80, CHR 0x87], [CHR 0xE2, CHR 0x80, CHR 0x88],
      [CHR 0xE2, CHR 0x80, CHR 0x89], [CHR 0xE2, CHR 0x80, CHR 0x8A],
      [CHR 0xE2, CHR 0x80, CHR 0xA8], [CHR 0xE2, CHR 0x80, CHR 0xA9], [CHR 0xE2, CHR 0x80, CHR 0xAF],
      [CHR 0xE2, CHR 0x81, CHR 0x9F],
      [CHR 0xE3, CHR 0x80, CHR 0x80],
      [CHR 0xEF, CHR 0xBB, CHR 0xBF]]"

text \<open>
  A string cut into its whitespace code points and its other bytes, from left to right. Every
  encoding above starts with a byte that is no continuation byte, so in a UTF-8 string it is
  found only where a code point starts, and what is found is that code point.
\<close>

datatype piece = Space string | Byte char

fun pieces :: "string \<Rightarrow> piece list" where
  "pieces (a # b # c # s) =
     (if [a] \<in> set whitespace1 then Space [a] # pieces (b # c # s)
      else if [a, b] \<in> set whitespace2 then Space [a, b] # pieces (c # s)
      else if [a, b, c] \<in> set whitespace3 then Space [a, b, c] # pieces s
      else Byte a # pieces (b # c # s))"
| "pieces [a, b] =
     (if [a] \<in> set whitespace1 then Space [a] # pieces [b]
      else if [a, b] \<in> set whitespace2 then [Space [a, b]]
      else Byte a # pieces [b])"
| "pieces [a] = (if [a] \<in> set whitespace1 then [Space [a]] else [Byte a])"
| "pieces [] = []"

fun isSpace :: "piece \<Rightarrow> bool" where
  "isSpace (Space w) = True"
| "isSpace (Byte c) = False"

fun bytes :: "piece \<Rightarrow> string" where
  "bytes (Space w) = w"
| "bytes (Byte c) = [c]"

text \<open>\<open>s.trim()\<close>: the string without the whitespace code points at its two ends.\<close>

definition trim :: "string \<Rightarrow> string" where
  "trim s = concat (map bytes (rev (dropWhile isSpace (rev (dropWhile isSpace (pieces s))))))"

text \<open>
  \<open>s.split(/\s+/)\<close>: the parts between maximal runs of whitespace, an empty part where the string
  starts or ends with one. \<open>inSep\<close> says that the previous piece was whitespace, \<open>cur\<close> is the
  part read so far.
\<close>

fun splitRuns :: "bool \<Rightarrow> string \<Rightarrow> piece list \<Rightarrow> string list" where
  "splitRuns inSep cur [] = [cur]"
| "splitRuns inSep cur (Space w # ps) =
     (if inSep then splitRuns True [] ps else cur # splitRuns True [] ps)"
| "splitRuns inSep cur (Byte c # ps) = splitRuns False (cur @ [c]) ps"

definition splitWhitespace :: "string \<Rightarrow> string list" where
  "splitWhitespace s = splitRuns False [] (pieces s)"





section \<open>Consolidation engine (ConsolidationWorker)\<close>

text \<open>The caller's \<open>ConsolidationConfig\<close>, every field optional; the \<open>debug\<close> flag only logs and is left out.\<close>

record ConsolidationConfig =
  shortTermHours_opt :: "rat option"
  workingHours_opt :: "rat option"
  workingAccessThreshold_opt :: "rat option"
  longTermAccessThreshold_opt :: "rat option"

text \<open>\<open>Required<ConsolidationConfig>\<close>, as the constructor stores it.\<close>

record ConsolidationSettings =
  shortTermHours :: rat
  workingHours :: rat
  workingAccessThreshold :: rat
  longTermAccessThreshold :: rat

definition ConsolidationWorker_config :: "ConsolidationConfig \<Rightarrow> ConsolidationSettings" where
  "ConsolidationWorker_config config =
     \<lparr> shortTermHours = (case shortTermHours_opt config of None \<Rightarrow> 1 | Some v \<Rightarrow> v),
       workingHours = (case workingHours_opt config of None \<Rightarrow> 24 | Some v \<Rightarrow> v),
       workingAccessThreshold = (case workingAccessThreshold_opt config of None \<Rightarrow> 2 | Some v \<Rightarrow> v),
       longTermAccessThreshold = (case longTermAccessThreshold_opt config of None \<Rightarrow> 5 | Some v \<Rightarrow> v) \<rparr>"

text \<open>\<open>determineStage(fact)\<close>, with its locals \<open>ageMs\<close>, \<open>ageHours\<close> and \<open>accessCount\<close>.\<close>

definition determineStage :: "ConsolidationSettings \<Rightarrow> int \<Rightarrow> 'a MemoryFact_scheme \<Rightarrow> MemoryStage" where
  "determineStage config now f =
     (let ageMs = now - createdAt f;
          ageHours = of_int ageMs / (1000 * 60 * 60);
          accessCount = (case accessCount f of Value n \<Rightarrow> of_nat n | _ \<Rightarrow> 0)
      in if ageHours \<ge> workingHours config \<and> accessCount \<ge> longTermAccessThreshold config
         then LongTerm
         else if ageHours \<ge> shortTermHours config \<or> accessCount \<ge> workingAccessThreshold config
         then Working
         else ShortTerm)"

section \<open>Decay engine (DecayManager)\<close>

record DecayConfig =
  enabled_opt :: "bool option"
  defaultTtlDays_opt :: "rat option"
  lowWeightTtlDays_opt :: "rat option"
  permanentPredicates_opt :: "string list option"
  ephemeralPredicates_opt :: "string list option"
  ephemeralTtlHours_opt :: "rat option"
  reinforcementThreshold_opt :: "nat option"

text \<open>
  \<open>Required<DecayConfig>\<close>. \<open>defaultTtlDays\<close> keeps its type \<open>number | null\<close>, although the
  constructor's \<open>??\<close> replaces a \<open>null\<close> by 90.
\<close>

record DecaySettings =
  enabled :: bool
  defaultTtlDays :: "rat option"
  lowWeightTtlDays :: rat
  permanentPredicates :: "string list"
  ephemeralPredicates :: "string list"
  ephemeralTtlHours :: rat
  reinforcementThreshold :: nat

definition DEFAULT_PERMANENT_PREDICATES :: "string list" where
  "DEFAULT_PERMANENT_PREDICATES =
     [''NAME'', ''FULL_NAME'', ''ALLERGY'', ''MEDICAL_CONDITION'', ''BIRTHDAY'', ''BIRTH_DATE'',
      ''EMAIL'', ''PHONE'', ''ADDRESS'', ''LANGUAGE'', ''TIMEZONE'']"

definition DEFAULT_EPHEMERAL_PREDICATES :: "string list" where
  "DEFAULT_EPHEMERAL_PREDICATES =
     [''WEARING'', ''CURRENT_MOOD'', ''CURRENT_ACTIVITY'', ''CURRENT_LOCATION'', ''CURRENTLY'',
      ''RIGHT_NOW'', ''TODAY'', ''FEELING'']"

definition DecayManager_config :: "DecayConfig \<Rightarrow> DecaySettings" where
  "DecayManager_config config =
     \<lparr> enabled = (case enabled_opt config of None \<Rightarrow> True | Some b \<Rightarrow> b),
       defaultTtlDays = Some (case defaultTtlDays_opt config of None \<Rightarrow> 90 | Some d \<Rightarrow> d),
       lowWeightTtlDays = (case lowWeightTtlDays_opt config of None \<Rightarrow> 7 | Some d \<Rightarrow> d),
       permanentPredicates = DEFAULT_PERMANENT_PREDICATES
          @ (case permanentPredicates_opt config of None \<Rightarrow> [] | Some ps \<Rightarrow> ps),
       ephemeralPredicates = DEFAULT_EPHEMERAL_PREDICATES
          @ (case ephemeralPredicates_opt config of None \<Rightarrow> [] | Some ps \<Rightarrow> ps),
       ephemeralTtlHours = (case ephemeralTtlHours_opt config of None \<Rightarrow> 24 | Some h \<Rightarrow> h),
       reinforcementThreshold = (case reinforcementThreshold_opt config of None \<Rightarrow> 3 | Some n \<Rightarrow> n) \<rparr>"

text \<open>The locals \<open>reinforcements\<close>, \<open>lastReinforced\<close> and \<open>ttlDays\<close> shared by the three methods.\<close>

definition reinforcements :: "'a FactWithDecay_scheme \<Rightarrow> nat" where
  "reinforcements f = (case reinforcementCount f of None \<Rightarrow> 0 | Some n \<Rightarrow> n)"

definition lastReinforced :: "'a FactWithDecay_scheme \<Rightarrow> int" where
  "lastReinforced f = (case lastReinforcedAt f of None \<Rightarrow> createdAt f | Some t \<Rightarrow> t)"

definition ttlDays :: "DecaySettings \<Rightarrow> 'a FactWithDecay_scheme \<Rightarrow> rat option" where
  "ttlDays config f =
     (if confidence f < 1/2 then Some (lowWeightTtlDays config) else defaultTtlDays config)"

text \<open>
  In the methods below \<open>upper\<close> stands for the built-in \<open>String.prototype.toUpperCase\<close>, which
  they apply to the predicate of the fact.
\<close>

definition isPermanent :: "(string \<Rightarrow> string) \<Rightarrow> DecaySettings \<Rightarrow> string \<Rightarrow> bool" where
  "isPermanent upper config p \<longleftrightarrow> upper p \<in> set (permanentPredicates config)"

definition isEphemeral :: "(string \<Rightarrow> string) \<Rightarrow> DecaySettings \<Rightarrow> string \<Rightarrow> bool" where
  "isEphemeral upper config p \<longleftrightarrow> upper p \<in> set (ephemeralPredicates config)"

text \<open>
  What \<open>calculateDecayWeight\<close> returns: a number, or one of the two values that a TTL of zero
  makes of the division \<open>ageMs / ttlMs\<close>.
\<close>

datatype number = Num rat | Infinity | NaN

text \<open>
  \<open>Math.max(0, 1 - ageMs / ttlMs)\<close>. For \<open>ttlMs = 0\<close> the quotient is \<open>Infinity\<close>, \<open>-Infinity\<close> or
  \<open>NaN\<close> as \<open>ageMs\<close> is positive, negative or zero, which makes the maximum \<open>0\<close>, \<open>Infinity\<close> or
  \<open>NaN\<close>.
\<close>

definition remainingLife :: "int \<Rightarrow> rat \<Rightarrow> number" where
  "remainingLife ageMs ttlMs =
     (if ttlMs \<noteq> 0 then Num (max 0 (1 - of_int ageMs / ttlMs))
      else if 0 < ageMs then Num 0
      else if ageMs < 0 then Infinity
      else NaN)"

text \<open>\<open>Math.min(1, weight + reinforcementBoost)\<close>, the boost being a number.\<close>

fun boosted :: "number \<Rightarrow> rat \<Rightarrow> number" where
  "boosted (Num weight) reinforcementBoost = Num (min 1 (weight + reinforcementBoost))"
| "boosted Infinity reinforcementBoost = Num 1"
| "boosted NaN reinforcementBoost = NaN"

definition calculateDecayWeight :: "(string \<Rightarrow> string) \<Rightarrow> DecaySettings \<Rightarrow> int
    \<Rightarrow> 'a FactWithDecay_scheme \<Rightarrow> number" where
  "calculateDecayWeight upper config now f =
     (if \<not> enabled config then Num 1
      else if upper (predicate f) \<in> set (permanentPredicates config) then Num 1
      else if reinforcements f \<ge> reinforcementThreshold config then Num 1
      else
        let ageMs = now - lastReinforced f in
        if upper (predicate f) \<in> set (ephemeralPredicates config)
        then (let ttlMs = ephemeralTtlHours config * 60 * 60 * 1000
              in remainingLife ageMs ttlMs)
        else (case ttlDays config f of
                None \<Rightarrow> Num 1
              | Some days \<Rightarrow>
                  let ttlMs = days * 24 * 60 * 60 * 1000;
                      weight = remainingLife ageMs ttlMs;
                      reinforcementBoost = min (1/2) (of_nat (reinforcements f) * (1/10))
                  in boosted weight reinforcementBoost))"

text \<open>
  \<open>new Date(x).getTime()\<close> for a number \<open>x\<close> of milliseconds: the time value is \<open>x\<close> truncated
  towards zero. (Beyond 8.64e15 ms either side of the epoch the code's \<open>Date\<close> is invalid; such
  dates are outside the model.)
\<close>

definition Date_getTime :: "rat \<Rightarrow> int" where
  "Date_getTime x = (if 0 \<le> x then \<lfloor>x\<rfloor> else \<lceil>x\<rceil>)"

definition calculateExpiryDate :: "(string \<Rightarrow> string) \<Rightarrow> DecaySettings \<Rightarrow> 'a FactWithDecay_scheme
    \<Rightarrow> int option" where
  "calculateExpiryDate upper config f =
     (if \<not> enabled config then None
      else if upper (predicate f) \<in> set (permanentPredicates config) then None
      else if reinforcements f \<ge> reinforcementThreshold config then None
      else if upper (predicate f) \<in> set (ephemeralPredicates config)
      then Some (Date_getTime (of_int (lastReinforced f) + ephemeralTtlHours config * 60 * 60 * 1000))
      else (case ttlDays config f of
              None \<Rightarrow> None
            | Some days \<Rightarrow> Some (Date_getTime (of_int (lastReinforced f) + days * 24 * 60 * 60 * 1000))))"

text \<open>\<open>weight <= 0\<close>, which is false of \<open>Infinity\<close> and of \<open>NaN\<close>.\<close>

fun notPositive :: "number \<Rightarrow> bool" where
  "notPositive (Num weight) = (weight \<le> 0)"
| "notPositive Infinity = False"
| "notPositive NaN = False"

text \<open>\<open>shouldPrune\<close> reads the clock twice; both readings are \<open>now\<close>.\<close>

definition shouldPrune :: "(string \<Rightarrow> string) \<Rightarrow> DecaySettings \<Rightarrow> int \<Rightarrow> 'a FactWithDecay_scheme
    \<Rightarrow> bool" where
  "shouldPrune upper config now f =
     (if \<not> enabled config then False
      else if notPositive (calculateDecayWeight upper config now f) then True
      else (case calculateExpiryDate upper config f of
              None \<Rightarrow> False
            | Some expiresAt \<Rightarrow> expiresAt < now))"

section \<open>Storage adapters (BaseAdapter, InMemoryAdapter)\<close>

text \<open>
  The argument of \<open>upsertFact\<close>. Its declared type omits \<open>id\<close>, \<open>createdAt\<close> and \<open>updatedAt\<close>, but
  the tiered store passes a whole \<open>MemoryFact\<close>, and the object spread copies whatever properties
  are there; so the three are optional here (absent or with a value). The properties that
  \<open>MemoryFact\<close> requires have a value.
\<close>

record FactInput =
  in_id :: "nat option"
  in_createdAt :: "int option"
  in_updatedAt :: "int option"
  in_subject :: string
  in_predicate :: string
  in_object :: string
  in_confidence :: rat
  in_importance :: "rat optional"
  in_sentiment :: "Sentiment optional"
  in_source :: string
  in_invalidatedAt :: "int option"
  in_accessCount :: "nat optional"
  in_memoryStage :: "MemoryStage optional"

text \<open>A stored fact handed to \<open>upsertFact\<close> as it is.\<close>

definition asInput :: "MemoryFact \<Rightarrow> FactInput" where
  "asInput f =
     \<lparr> in_id = Some (fid f), in_createdAt = Some (createdAt f), in_updatedAt = Some (updatedAt f),
       in_subject = subject f, in_predicate = predicate f, in_object = object f,
       in_confidence = confidence f, in_importance = importance f, in_sentiment = sentiment f,
       in_source = source f, in_invalidatedAt = invalidatedAt f, in_accessCount = accessCount f,
       in_memoryStage = memoryStage f \<rparr>"

text \<open>
  \<open>Partial<MemoryFact>\<close>, the argument of \<open>updateFact\<close>: a property that \<open>MemoryFact\<close> requires is
  absent or has a value, an optional one is an \<open>optional\<close>. \<open>upd_invalidatedAt\<close> is absent, \<open>null\<close>
  or a date.
\<close>

record FactUpdates =
  upd_subject :: "string option"
  upd_predicate :: "string option"
  upd_object :: "string option"
  upd_confidence :: "rat option"
  upd_importance :: "rat optional"
  upd_sentiment :: "Sentiment optional"
  upd_source :: "string option"
  upd_createdAt :: "int option"
  upd_invalidatedAt :: "int option option"
  upd_accessCount :: "nat optional"
  upd_memoryStage :: "MemoryStage optional"

text \<open>What a storage call reads from its environment: the clock and the next UUID.\<close>

record Env =
  env_now :: int
  env_uuid :: nat

text \<open>
  The fact operations of the abstract class \<open>BaseAdapter\<close>, over the adapter's own state \<open>'s\<close>.
  A read returns its result; a write returns its result and the state it leaves.
\<close>

record 's BaseAdapter =
  getFacts :: "'s \<Rightarrow> string \<Rightarrow> FactFilter option \<Rightarrow> error + MemoryFact list"
  getFactById :: "'s \<Rightarrow> string \<Rightarrow> nat \<Rightarrow> error + MemoryFact option"
  upsertFact :: "'s \<Rightarrow> Env \<Rightarrow> string \<Rightarrow> FactInput \<Rightarrow> (error + MemoryFact) \<times> 's"
  updateFact :: "'s \<Rightarrow> Env \<Rightarrow> string \<Rightarrow> nat \<Rightarrow> FactUpdates \<Rightarrow> (error + MemoryFact) \<times> 's"
  deleteFact :: "'s \<Rightarrow> Env \<Rightarrow> string \<Rightarrow> nat \<Rightarrow> string option \<Rightarrow> (error + unit) \<times> 's"
  hardDeleteFact :: "'s \<Rightarrow> string \<Rightarrow> nat \<Rightarrow> (error + unit) \<times> 's"

text \<open>The filter \<open>{ validOnly: true }\<close>.\<close>

definition validOnlyFilter :: FactFilter where
  "validOnlyFilter =
     \<lparr> flt_subject = None, flt_predicate = None, flt_predicates = None, flt_validOnly = Some True,
       flt_limit = None, flt_orderBy = None, flt_orderDir = None \<rparr>"

text \<open>
  A JavaScript \<open>Map\<close> from fact ids to facts, in insertion order: \<open>set\<close> replaces the value of a
  key in place or appends, \<open>delete\<close> removes the key.
\<close>

type_synonym FactMap = "(nat \<times> MemoryFact) list"

fun Map_set :: "nat \<Rightarrow> MemoryFact \<Rightarrow> FactMap \<Rightarrow> FactMap" where
  "Map_set k v [] = [(k, v)]"
| "Map_set k v (p # ps) = (if fst p = k then (k, v) # ps else p # Map_set k v ps)"

definition Map_get :: "FactMap \<Rightarrow> nat \<Rightarrow> MemoryFact option" where
  "Map_get m k = map_of m k"

definition Map_delete :: "nat \<Rightarrow> FactMap \<Rightarrow> FactMap" where
  "Map_delete k m = filter (\<lambda>p. fst p \<noteq> k) m"

definition Map_values :: "FactMap \<Rightarrow> MemoryFact list" where
  "Map_values m = map snd m"

text \<open>
  The state of an \<open>InMemoryAdapter\<close>: the facts of every user (\<open>getUserData\<close> creates the empty
  entry of a user on first use). Conversations and sessions are not modelled, nor is the
  \<open>initialized\<close> flag: \<open>ensureInitialized\<close> cannot fail here.
\<close>

type_synonym InMemoryState = "string \<Rightarrow> FactMap"

definition InMemory_empty :: InMemoryState where
  "InMemory_empty = (\<lambda>userId. [])"

text \<open>The sort key of \<open>getFacts\<close> for each value of \<open>orderBy\<close>; any other value leaves the order.\<close>

definition orderKey :: "string \<Rightarrow> MemoryFact \<Rightarrow> rat" where
  "orderKey ob f =
     (if ob = ''createdAt'' then of_int (createdAt f)
      else if ob = ''updatedAt'' then of_int (updatedAt f)
      else if ob = ''confidence'' then confidence f
      else 0)"

definition InMemoryAdapter_getFacts :: "InMemoryState \<Rightarrow> string \<Rightarrow> FactFilter option \<Rightarrow> error + MemoryFact list" where
  "InMemoryAdapter_getFacts st userId flt =
     (let facts0 = Map_values (st userId) in
      case flt of
        None \<Rightarrow> Inr facts0
      | Some fl \<Rightarrow>
          let facts1 = (case flt_subject fl of
                          Some s \<Rightarrow> if s \<noteq> [] then filter (\<lambda>f. subject f = s) facts0 else facts0
                        | None \<Rightarrow> facts0);
              facts2 = (case flt_predicate fl of
                          Some p \<Rightarrow> if p \<noteq> [] then filter (\<lambda>f. predicate f = p) facts1 else facts1
                        | None \<Rightarrow> facts1);
              facts3 = (case flt_predicates fl of
                          Some ps \<Rightarrow> if ps \<noteq> [] then filter (\<lambda>f. predicate f \<in> set ps) facts2 else facts2
                        | None \<Rightarrow> facts2);
              facts4 = (if flt_validOnly fl \<noteq> Some False
                        then filter (\<lambda>f. invalidatedAt f = None) facts3 else facts3);
              facts5 = (case flt_orderBy fl of
                          Some ob \<Rightarrow>
                            if ob \<noteq> []
                            then (if flt_orderDir fl = Some ''desc''
                                  then sort_key (\<lambda>f. - orderKey ob f) facts4
                                  else sort_key (orderKey ob) facts4)
                            else facts4
                        | None \<Rightarrow> facts4);
              facts6 = (case flt_limit fl of
                          Some n \<Rightarrow> if n \<noteq> 0 then take n facts5 else facts5
                        | None \<Rightarrow> facts5)
          in Inr facts6)"

definition InMemoryAdapter_getFactById :: "InMemoryState \<Rightarrow> string \<Rightarrow> nat \<Rightarrow> error + MemoryFact option" where
  "InMemoryAdapter_getFactById st userId factId = Inr (Map_get (st userId) factId)"

text \<open>\<open>{ ...existingFact, ...fact, updatedAt: now }\<close>\<close>

definition spreadOver :: "MemoryFact \<Rightarrow> FactInput \<Rightarrow> int \<Rightarrow> MemoryFact" where
  "spreadOver existingFact fa now =
     \<lparr> fid = (case in_id fa of None \<Rightarrow> fid existingFact | Some i \<Rightarrow> i),
       subject = in_subject fa, predicate = in_predicate fa, object = in_object fa,
       confidence = in_confidence fa,
       importance = spreadProperty (importance existingFact) (in_importance fa),
       sentiment = spreadProperty (sentiment existingFact) (in_sentiment fa),
       source = in_source fa,
       createdAt = (case in_createdAt fa of None \<Rightarrow> createdAt existingFact | Some c \<Rightarrow> c),
       updatedAt = now,
       invalidatedAt = in_invalidatedAt fa,
       accessCount = spreadProperty (accessCount existingFact) (in_accessCount fa),
       memoryStage = spreadProperty (memoryStage existingFact) (in_memoryStage fa) \<rparr>"

text \<open>\<open>{ ...fact, id: uuidv4(), createdAt: now, updatedAt: now }\<close>\<close>

definition newFactOf :: "FactInput \<Rightarrow> nat \<Rightarrow> int \<Rightarrow> MemoryFact" where
  "newFactOf fa uuid now =
     \<lparr> fid = uuid, subject = in_subject fa, predicate = in_predicate fa, object = in_object fa,
       confidence = in_confidence fa, importance = in_importance fa, sentiment = in_sentiment fa,
       source = in_source fa, createdAt = now, updatedAt = now, invalidatedAt = in_invalidatedAt fa,
       accessCount = in_accessCount fa, memoryStage = in_memoryStage fa \<rparr>"

definition InMemoryAdapter_upsertFact ::
    "InMemoryState \<Rightarrow> Env \<Rightarrow> string \<Rightarrow> FactInput \<Rightarrow> (error + MemoryFact) \<times> InMemoryState" where
  "InMemoryAdapter_upsertFact st env userId fa =
     (case find (\<lambda>f. subject f = in_subject fa \<and> predicate f = in_predicate fa \<and> invalidatedAt f = None)
             (Map_values (st userId)) of
        Some existingFact \<Rightarrow>
          let updated = spreadOver existingFact fa (env_now env)
          in (Inr updated, st(userId := Map_set (fid existingFact) updated (st userId)))
      | None \<Rightarrow>
          let newFact = newFactOf fa (env_uuid env) (env_now env)
          in (Inr newFact, st(userId := Map_set (fid newFact) newFact (st userId))))"

text \<open>\<open>{ ...fact, ...updates, id: fact.id, updatedAt: new Date() }\<close>\<close>

definition applyUpdates :: "MemoryFact \<Rightarrow> FactUpdates \<Rightarrow> int \<Rightarrow> MemoryFact" where
  "applyUpdates f u now =
     \<lparr> fid = fid f,
       subject = (case upd_subject u of None \<Rightarrow> subject f | Some x \<Rightarrow> x),
       predicate = (case upd_predicate u of None \<Rightarrow> predicate f | Some x \<Rightarrow> x),
       object = (case upd_object u of None \<Rightarrow> object f | Some x \<Rightarrow> x),
       confidence = (case upd_confidence u of None \<Rightarrow> confidence f | Some x \<Rightarrow> x),
       importance = spreadProperty (importance f) (upd_importance u),
       sentiment = spreadProperty (sentiment f) (upd_sentiment u),
       source = (case upd_source u of None \<Rightarrow> source f | Some x \<Rightarrow> x),
       createdAt = (case upd_createdAt u of None \<Rightarrow> createdAt f | Some x \<Rightarrow> x),
       updatedAt = now,
       invalidatedAt = (case upd_invalidatedAt u of None \<Rightarrow> invalidatedAt f | Some x \<Rightarrow> x),
       accessCount = spreadProperty (accessCount f) (upd_accessCount u),
       memoryStage = spreadProperty (memoryStage f) (upd_memoryStage u) \<rparr>"

definition InMemoryAdapter_updateFact ::
    "InMemoryState \<Rightarrow> Env \<Rightarrow> string \<Rightarrow> nat \<Rightarrow> FactUpdates \<Rightarrow> (error + MemoryFact) \<times> InMemoryState" where
  "InMemoryAdapter_updateFact st env userId factId updates =
     (case Map_get (st userId) factId of
        None \<Rightarrow> (Inl (Error ''Fact not found''), st)
      | Some f \<Rightarrow>
          let updated = applyUpdates f updates (env_now env)
          in (Inr updated, st(userId := Map_set factId updated (st userId))))"

definition InMemoryAdapter_deleteFact ::
    "InMemoryState \<Rightarrow> Env \<Rightarrow> string \<Rightarrow> nat \<Rightarrow> string option \<Rightarrow> (error + unit) \<times> InMemoryState" where
  "InMemoryAdapter_deleteFact st env userId factId reason =
     (case Map_get (st userId) factId of
        None \<Rightarrow> (Inr (), st)
      | Some f \<Rightarrow>
          (Inr (), st(userId := Map_set factId (f\<lparr>invalidatedAt := Some (env_now env)\<rparr>) (st userId))))"

definition InMemoryAdapter_hardDeleteFact ::
    "InMemoryState \<Rightarrow> string \<Rightarrow> nat \<Rightarrow> (error + unit) \<times> InMemoryState" where
  "InMemoryAdapter_hardDeleteFact st userId factId =
     (Inr (), st(userId := Map_delete factId (st userId)))"

definition InMemoryAdapter :: "InMemoryState BaseAdapter" where
  "InMemoryAdapter =
     \<lparr> getFacts = InMemoryAdapter_getFacts,
       getFactById = InMemoryAdapter_getFactById,
       upsertFact = InMemoryAdapter_upsertFact,
       updateFact = InMemoryAdapter_updateFact,
       deleteFact = InMemoryAdapter_deleteFact,
       hardDeleteFact = InMemoryAdapter_hardDeleteFact \<rparr>"

section \<open>Conflict resolver (ConflictResolver)\<close>

datatype ConflictStrategy = S_latest | S_keep_both | S_merge

datatype Resolution = R_replace | R_keep_both | R_merge | R_ignore

record Conflict =
  existingFact :: MemoryFact
  newOperation :: MemoryOperation
  resolution :: Resolution

record ConflictResolutionResult =
  resolvedOperations :: "MemoryOperation list"
  conflicts :: "Conflict list"

text \<open>The implicit DELETE of the existing fact; \<open>lead\<close> is the text before the new value.\<close>

definition deleteOf :: "MemoryFact \<Rightarrow> string \<Rightarrow> MemoryOperation \<Rightarrow> MemoryOperation" where
  "deleteOf ex lead opn =
     \<lparr> op_kind = DELETE, op_subject = subject ex, op_predicate = predicate ex, op_object = object ex,
       op_reason = Some (lead @ op_object opn), op_confidence = None, op_importance = None,
       op_sentiment = None \<rparr>"

text \<open>The \<open>for\<close> loop of \<open>resolve\<close>, with its two accumulators.\<close>

fun resolveLoop :: "ConflictStrategy \<Rightarrow> MemoryFact list \<Rightarrow> MemoryOperation list
    \<Rightarrow> ConflictResolutionResult \<Rightarrow> ConflictResolutionResult" where
  "resolveLoop strategy existingFacts [] acc = acc"
| "resolveLoop strategy existingFacts (opn # ops) acc =
     (if op_kind opn = DELETE
      then resolveLoop strategy existingFacts ops
             (acc\<lparr>resolvedOperations := resolvedOperations acc @ [opn]\<rparr>)
      else
        case find (\<lambda>f. subject f = op_subject opn \<and> predicate f = op_predicate opn) existingFacts of
          None \<Rightarrow> resolveLoop strategy existingFacts ops
                    (acc\<lparr>resolvedOperations := resolvedOperations acc @ [opn]\<rparr>)
        | Some ex \<Rightarrow>
            if object ex = op_object opn
            then resolveLoop strategy existingFacts ops acc
            else (case strategy of
                    S_latest \<Rightarrow> resolveLoop strategy existingFacts ops
                      \<lparr> resolvedOperations = resolvedOperations acc
                           @ [deleteOf ex ''Replaced by new value: '' opn, opn],
                        conflicts = conflicts acc
                           @ [\<lparr> existingFact = ex, newOperation = opn, resolution = R_replace \<rparr>] \<rparr>
                  | S_keep_both \<Rightarrow> resolveLoop strategy existingFacts ops
                      \<lparr> resolvedOperations = resolvedOperations acc @ [opn],
                        conflicts = conflicts acc
                           @ [\<lparr> existingFact = ex, newOperation = opn, resolution = R_keep_both \<rparr>] \<rparr>
                  | S_merge \<Rightarrow> resolveLoop strategy existingFacts ops
                      \<lparr> resolvedOperations = resolvedOperations acc
                           @ [deleteOf ex ''Merged with new value: '' opn, opn],
                        conflicts = conflicts acc
                           @ [\<lparr> existingFact = ex, newOperation = opn, resolution = R_merge \<rparr>] \<rparr>))"

text \<open>
  \<open>resolve(userId, operations, adapter)\<close> of a resolver built with \<open>strategy\<close>; \<open>st\<close> is the
  adapter's state when it is called.
\<close>

definition resolve :: "ConflictStrategy \<Rightarrow> string \<Rightarrow> MemoryOperation list \<Rightarrow> 's BaseAdapter \<Rightarrow> 's
    \<Rightarrow> error + ConflictResolutionResult" where
  "resolve strategy userId ops adapter st =
     (case getFacts adapter st userId (Some validOnlyFilter) of
        Inl e \<Rightarrow> Inl e
      | Inr existingFacts \<Rightarrow>
          Inr (resolveLoop strategy existingFacts ops \<lparr> resolvedOperations = [], conflicts = [] \<rparr>))"


text \<open>
  What one pass of the loop body adds to the two accumulators: the loop run on the single
  operation, from empty accumulators.
\<close>

definition resolveStep :: "ConflictStrategy \<Rightarrow> MemoryFact list \<Rightarrow> MemoryOperation
    \<Rightarrow> ConflictResolutionResult" where
  "resolveStep s ex opn = resolveLoop s ex [opn] \<lparr> resolvedOperations = [], conflicts = [] \<rparr>"

section \<open>Validation of the extraction result (validateExtractionResult, processTask)\<close>

text \<open>
  What \<open>JSON.parse\<close> returns. The properties of an object are an association list read with
  \<open>map_of\<close>, its keys taken as distinct (\<open>JSON.parse\<close> keeps one value for a key); a number is a
  \<open>rat\<close> (JSON has no \<open>NaN\<close>; a literal too large for a double parses to an infinity, which the
  clamps below treat like every number beyond their range).
\<close>

datatype json = JNull | JBool bool | JNum rat | JStr string | JArr "json list" | JObj "(string \<times> json) list"











section \<open>Applying the resolved operations (ExtractorWorker)\<close>







section \<open>Query cache (SemanticCache)\<close>

text \<open>\<open>HydratedContext\<close>, without the recent history, which the cache only stores and returns.\<close>

record HydratedContext =
  compiledPrompt :: string
  facts :: "MemoryFact list"
  estimatedTokens :: nat
  fromCache :: bool

record CacheEntry =
  query :: string
  queryLower :: string
  cachedContext :: HydratedContext
  timestamp :: int
  hits :: nat

record SemanticCacheConfig =
  maxSize_opt :: "nat option"
  ttlMs_opt :: "int option"
  similarityThreshold_opt :: "rat option"

record SemanticCacheSettings =
  maxSize :: nat
  ttlMs :: int
  similarityThreshold :: rat

record CacheStats =
  stat_hits :: nat
  stat_misses :: nat
  stat_evictions :: nat

record SemanticCache =
  cache :: "string \<Rightarrow> CacheEntry list option"
  cache_config :: SemanticCacheSettings
  stats :: CacheStats

definition SemanticCache_new :: "SemanticCacheConfig \<Rightarrow> SemanticCache" where
  "SemanticCache_new config =
     \<lparr> cache = (\<lambda>userId. None),
       cache_config =
         \<lparr> maxSize = (case maxSize_opt config of None \<Rightarrow> 100 | Some n \<Rightarrow> n),
           ttlMs = (case ttlMs_opt config of None \<Rightarrow> 5 * 60 * 1000 | Some t \<Rightarrow> t),
           similarityThreshold = (case similarityThreshold_opt config of None \<Rightarrow> 85/100 | Some x \<Rightarrow> x) \<rparr>,
       stats = \<lparr> stat_hits = 0, stat_misses = 0, stat_evictions = 0 \<rparr> \<rparr>"

text \<open>\<open>new Set(s.split(/\s+/).filter(Boolean))\<close>, as the list of its distinct members.\<close>

definition tokenSet :: "string \<Rightarrow> string list" where
  "tokenSet s = remdups (filter (\<lambda>w. w \<noteq> []) (splitWhitespace s))"

definition calculateSimilarity :: "string \<Rightarrow> string \<Rightarrow> rat" where
  "calculateSimilarity a b =
     (if a = b then 1
      else
        let tokensA = tokenSet a; tokensB = tokenSet b in
        if length tokensA = 0 \<or> length tokensB = 0 then 0
        else
          let intersection = length (filter (\<lambda>token. token \<in> set tokensB) tokensA);
              union = length tokensA + length tokensB - intersection
          in of_nat intersection / of_nat union)"

text \<open>
  The loop of \<open>get\<close> over the entries. \<open>i\<close> is the index of the entry at the head, and the pair is
  \<open>(bestMatch, bestScore)\<close>, the match being the index of the entry it points to.
\<close>

fun findBest :: "SemanticCacheSettings \<Rightarrow> int \<Rightarrow> string \<Rightarrow> CacheEntry list \<Rightarrow> nat
    \<Rightarrow> nat option \<times> rat \<Rightarrow> nat option \<times> rat" where
  "findBest config now queryLow [] i best = best"
| "findBest config now queryLow (entry # rest) i (bestMatch, bestScore) =
     (if now - timestamp entry > ttlMs config
      then findBest config now queryLow rest (Suc i) (bestMatch, bestScore)
      else
        let score = calculateSimilarity queryLow (queryLower entry) in
        if score \<ge> similarityThreshold config \<and> score > bestScore
        then findBest config now queryLow rest (Suc i) (Some i, score)
        else findBest config now queryLow rest (Suc i) (bestMatch, bestScore))"

definition countMiss :: "SemanticCache \<Rightarrow> SemanticCache" where
  "countMiss c = c\<lparr>stats := (stats c)\<lparr>stat_misses := Suc (stat_misses (stats c))\<rparr>\<rparr>"

definition SemanticCache_get :: "SemanticCache \<Rightarrow> int \<Rightarrow> string \<Rightarrow> string
    \<Rightarrow> HydratedContext option \<times> SemanticCache" where
  "SemanticCache_get c now userId qry =
     (case cache c userId of
        None \<Rightarrow> (None, countMiss c)
      | Some entries \<Rightarrow>
          if length entries = 0 then (None, countMiss c)
          else
            let queryLow = trim (toLowerCase qry) in
            case fst (findBest (cache_config c) now queryLow entries 0 (None, 0)) of
              Some i \<Rightarrow>
                let bestMatch = entries ! i in
                (Some ((cachedContext bestMatch)\<lparr>fromCache := True\<rparr>),
                 c\<lparr> cache := (cache c)(userId := Some (entries[i := bestMatch\<lparr>hits := Suc (hits bestMatch)\<rparr>])),
                    stats := (stats c)\<lparr>stat_hits := Suc (stat_hits (stats c))\<rparr> \<rparr>)
            | None \<Rightarrow> (None, countMiss c))"

text \<open>
  The comparator of the eviction sort orders by \<open>hits\<close>, then by \<open>timestamp\<close>; the sort is stable.
  \<open>shift()\<close> drops the first entry, and nothing of an empty array.
\<close>

definition evictionOrder :: "CacheEntry list \<Rightarrow> CacheEntry list" where
  "evictionOrder es = sort_key (\<lambda>e. (hits e, timestamp e)) es"

definition SemanticCache_set :: "SemanticCache \<Rightarrow> int \<Rightarrow> string \<Rightarrow> string \<Rightarrow> HydratedContext
    \<Rightarrow> SemanticCache" where
  "SemanticCache_set c now userId qry ctx =
     (let entries = (case cache c userId of None \<Rightarrow> [] | Some es \<Rightarrow> es);
          validEntries = filter (\<lambda>e. now - timestamp e \<le> ttlMs (cache_config c)) entries;
          full = (length validEntries \<ge> maxSize (cache_config c));
          kept = (if full then tl (evictionOrder validEntries) else validEntries);
          newEntry = \<lparr> query = qry, queryLower = trim (toLowerCase qry),
                       cachedContext = ctx\<lparr>fromCache := False\<rparr>, timestamp = now, hits = 0 \<rparr>
      in c\<lparr> cache := (cache c)(userId := Some (kept @ [newEntry])),
            stats := (if full then (stats c)\<lparr>stat_evictions := Suc (stat_evictions (stats c))\<rparr>
                      else stats c) \<rparr>)"

section \<open>Tiered store (TieredAdapter)\<close>

record TieredAdapterConfig =
  hotFactLimit_opt :: "nat option"
  hotConversationLimit_opt :: "nat option"
  autoPromote_opt :: "bool option"
  autoDemote_opt :: "bool option"

record TieredSettings =
  hotFactLimit :: nat
  hotConversationLimit :: nat
  autoPromote :: bool
  autoDemote :: bool

text \<open>
  A tiered adapter: its two adapters and its settings. Its state is the pair of the hot and the
  cold adapter's states. Both adapters are taken as initialized, as after \<open>initialize()\<close>.
\<close>

record ('h, 'c) TieredAdapter =
  hot :: "'h BaseAdapter"
  cold :: "'c BaseAdapter"
  tier_config :: TieredSettings

definition TieredAdapter_new :: "'h BaseAdapter \<Rightarrow> 'c BaseAdapter \<Rightarrow> TieredAdapterConfig
    \<Rightarrow> ('h, 'c) TieredAdapter" where
  "TieredAdapter_new hotAdapter coldAdapter cfg =
     \<lparr> hot = hotAdapter, cold = coldAdapter,
       tier_config =
         \<lparr> hotFactLimit = (case hotFactLimit_opt cfg of None \<Rightarrow> 50 | Some n \<Rightarrow> n),
           hotConversationLimit = (case hotConversationLimit_opt cfg of None \<Rightarrow> 20 | Some n \<Rightarrow> n),
           autoPromote = (case autoPromote_opt cfg of None \<Rightarrow> True | Some b \<Rightarrow> b),
           autoDemote = (case autoDemote_opt cfg of None \<Rightarrow> True | Some b \<Rightarrow> b) \<rparr> \<rparr>"

text \<open>
  The loop of \<open>demoteOldFacts\<close>: each \<open>hardDeleteFact\<close> on the hot store has its rejection caught,
  so only the state it leaves goes on.
\<close>

fun removeFromHot :: "'h BaseAdapter \<Rightarrow> string \<Rightarrow> MemoryFact list \<Rightarrow> 'h \<Rightarrow> 'h" where
  "removeFromHot hotAdapter userId [] hs = hs"
| "removeFromHot hotAdapter userId (f # toRemove) hs =
     removeFromHot hotAdapter userId toRemove (snd (hardDeleteFact hotAdapter hs userId (fid f)))"

definition demoteOldFacts :: "('h, 'c) TieredAdapter \<Rightarrow> 'h \<Rightarrow> string \<Rightarrow> (error + unit) \<times> 'h" where
  "demoteOldFacts t hs userId =
     (case getFacts (hot t) hs userId (Some validOnlyFilter) of
        Inl e \<Rightarrow> (Inl e, hs)
      | Inr hotFacts \<Rightarrow>
          if length hotFacts > hotFactLimit (tier_config t)
          then
            let sorted = sort_key updatedAt hotFacts;
                toRemove = take (length hotFacts - hotFactLimit (tier_config t)) sorted
            in (Inr (), removeFromHot (hot t) userId toRemove hs)
          else (Inr (), hs))"

text \<open>
  \<open>upsertFact\<close>: the cold write, then the hot write, then the demotion. \<open>envCold\<close> and \<open>envHot\<close> are
  what the two writes read from the clock and the UUID source.
\<close>

definition TieredAdapter_upsertFact ::
    "('h, 'c) TieredAdapter \<Rightarrow> 'h \<times> 'c \<Rightarrow> Env \<Rightarrow> Env \<Rightarrow> string \<Rightarrow> FactInput
      \<Rightarrow> (error + MemoryFact) \<times> ('h \<times> 'c)" where
  "TieredAdapter_upsertFact t st envCold envHot userId fa =
     (case upsertFact (cold t) (snd st) envCold userId fa of
        (Inl e, cs) \<Rightarrow> (Inl e, (fst st, cs))
      | (Inr saved, cs) \<Rightarrow>
          (case upsertFact (hot t) (fst st) envHot userId (asInput saved) of
             (Inl e, hs) \<Rightarrow> (Inl e, (hs, cs))
           | (Inr written, hs) \<Rightarrow>
               if autoDemote (tier_config t)
               then (case demoteOldFacts t hs userId of
                       (Inl e, hs') \<Rightarrow> (Inl e, (hs', cs))
                     | (Inr u, hs') \<Rightarrow> (Inr saved, (hs', cs)))
               else (Inr saved, (hs, cs))))"

text \<open>\<open>updateFact\<close>: the cold update, then the hot update inside \<open>try { } catch { }\<close>.\<close>

definition TieredAdapter_updateFact ::
    "('h, 'c) TieredAdapter \<Rightarrow> 'h \<times> 'c \<Rightarrow> Env \<Rightarrow> Env \<Rightarrow> string \<Rightarrow> nat \<Rightarrow> FactUpdates
      \<Rightarrow> (error + MemoryFact) \<times> ('h \<times> 'c)" where
  "TieredAdapter_updateFact t st envCold envHot userId factId updates =
     (case updateFact (cold t) (snd st) envCold userId factId updates of
        (Inl e, cs) \<Rightarrow> (Inl e, (fst st, cs))
      | (Inr updated, cs) \<Rightarrow>
          (case updateFact (hot t) (fst st) envHot userId factId updates of
             (r, hs) \<Rightarrow> (Inr updated, (hs, cs))))"

text \<open>
  \<open>deleteFact\<close>: \<open>Promise.all\<close> of the cold delete and of the hot delete with its rejection caught.
  Both calls are made, the cold one first, whatever the other does; the call fails exactly when the
  cold delete does. The interleaving of the two calls at their \<open>await\<close>s is not modelled.
\<close>

definition TieredAdapter_deleteFact ::
    "('h, 'c) TieredAdapter \<Rightarrow> 'h \<times> 'c \<Rightarrow> Env \<Rightarrow> Env \<Rightarrow> string \<Rightarrow> nat \<Rightarrow> string option
      \<Rightarrow> (error + unit) \<times> ('h \<times> 'c)" where
  "TieredAdapter_deleteFact t st envCold envHot userId factId reason =
     (case deleteFact (cold t) (snd st) envCold userId factId reason of
        (rc, cs) \<Rightarrow>
          (case deleteFact (hot t) (fst st) envHot userId factId reason of
             (rh, hs) \<Rightarrow> (rc, (hs, cs))))"

text \<open>
  A caller's loop \<open>for (...) await tiered.upsertFact(userId, fact)\<close>: one entry of \<open>calls\<close> for each
  call, with what the call's two writes read from the environment. The results are collected in
  order.
\<close>

fun upsertEach :: "('h, 'c) TieredAdapter \<Rightarrow> string \<Rightarrow> (Env \<times> Env \<times> FactInput) list \<Rightarrow> 'h \<times> 'c
    \<Rightarrow> (error + MemoryFact) list \<times> ('h \<times> 'c)" where
  "upsertEach t userId [] st = ([], st)"
| "upsertEach t userId ((envCold, envHot, fa) # calls) st =
     (case TieredAdapter_upsertFact t st envCold envHot userId fa of
        (r, st') \<Rightarrow>
          (case upsertEach t userId calls st' of
             (rs, st'') \<Rightarrow> (r # rs, st'')))"

text \<open>A store that is down: every call rejects. Its state is \<open>unit\<close>.\<close>

definition unavailable :: error where
  "unavailable = Error ''store unavailable''"

definition DownAdapter :: "unit BaseAdapter" where
  "DownAdapter =
     \<lparr> getFacts = (\<lambda>s userId flt. Inl unavailable),
       getFactById = (\<lambda>s userId factId. Inl unavailable),
       upsertFact = (\<lambda>s env userId fa. (Inl unavailable, s)),
       updateFact = (\<lambda>s env userId factId updates. (Inl unavailable, s)),
       deleteFact = (\<lambda>s env userId factId reason. (Inl unavailable, s)),
       hardDeleteFact = (\<lambda>s userId factId. (Inl unavailable, s)) \<rparr>"

text \<open>
  The facts and the configuration of tests/tiered.test.ts: subject \<open>User\<close>, confidence 0.9, source
  \<open>test\<close>, \<open>invalidatedAt: null\<close>; hot limit 5, promotion and demotion on.
\<close>

definition testFact :: "string \<Rightarrow> string \<Rightarrow> FactInput" where
  "testFact p v =
     \<lparr> in_id = None, in_createdAt = None, in_updatedAt = None, in_subject = ''User'',
       in_predicate = p, in_object = v, in_confidence = 9/10, in_importance = Absent,
       in_sentiment = Absent, in_source = ''test'', in_invalidatedAt = None, in_accessCount = Absent,
       in_memoryStage = Absent \<rparr>"

definition testConfig :: TieredAdapterConfig where
  "testConfig =
     \<lparr> hotFactLimit_opt = Some 5, hotConversationLimit_opt = None, autoPromote_opt = Some True,
       autoDemote_opt = Some True \<rparr>"

text \<open>
  The calls of its auto-demotion test: \<open>FACT_0\<close> to \<open>FACT_5\<close>, one millisecond apart, the cold
  write of call \<open>i\<close> drawing the id \<open>100 + i\<close> and the hot write the id \<open>200 + i\<close>.
\<close>

definition testCall :: "nat \<Rightarrow> string \<Rightarrow> string \<Rightarrow> Env \<times> Env \<times> FactInput" where
  "testCall i p v =
     (\<lparr> env_now = 1700000000000 + int i, env_uuid = 100 + i \<rparr>,
      \<lparr> env_now = 1700000000000 + int i, env_uuid = 200 + i \<rparr>,
      testFact p v)"

definition testCalls :: "(Env \<times> Env \<times> FactInput) list" where
  "testCalls =
     [testCall 0 ''FACT_0'' ''Value 0'', testCall 1 ''FACT_1'' ''Value 1'',
      testCall 2 ''FACT_2'' ''Value 2'', testCall 3 ''FACT_3'' ''Value 3'',
      testCall 4 ''FACT_4'' ''Value 4'', testCall 5 ''FACT_5'' ''Value 5'']"

section \<open>Notions used in the proofs\<close>

text \<open>A fact map whose keys are distinct and are the ids of the facts stored under them.\<close>

definition keyedById :: "FactMap \<Rightarrow> bool" where
  "keyedById m \<longleftrightarrow> distinct (map fst m) \<and> (\<forall>p \<in> set m. fid (snd p) = fst p)"

text \<open>
  The state of a tiered store over two in-memory stores, for one user, while only new
  (subject, predicate) pairs are written: \<open>K\<close> holds the pairs written so far, \<open>Uh\<close> and \<open>Uc\<close> the
  ids used by the hot and the cold store, \<open>L\<close> is the hot limit.
\<close>

definition tiersFilled :: "(string \<times> string) set \<Rightarrow> nat set \<Rightarrow> nat set \<Rightarrow> nat \<Rightarrow> FactMap \<Rightarrow> FactMap \<Rightarrow> bool" where
  "tiersFilled K Uh Uc L H C \<longleftrightarrow>
     keyedById H \<and> length H \<le> L
     \<and> (\<forall>p \<in> set H. invalidatedAt (snd p) = None \<and> (subject (snd p), predicate (snd p)) \<in> K \<and> fst p \<in> Uh)
     \<and> distinct (map fst C)
     \<and> (\<forall>p \<in> set C. (subject (snd p), predicate (snd p)) \<in> K \<and> fst p \<in> Uc)"

definition keyOf :: "Env \<times> Env \<times> FactInput \<Rightarrow> string \<times> string" where
  "keyOf call = (in_subject (snd (snd call)), in_predicate (snd (snd call)))"

definition coldId :: "Env \<times> Env \<times> FactInput \<Rightarrow> nat" where
  "coldId call = env_uuid (fst call)"

definition hotId :: "Env \<times> Env \<times> FactInput \<Rightarrow> nat" where
  "hotId call = env_uuid (fst (snd call))"

chapter \<open>Properties\<close>

section \<open>Consolidation: the stage classifier\<close>

text \<open>
  C8. For every fact, with its age in hours being the milliseconds since its creation divided by
  3600000 and its access count being 0 when the fact has none, \<open>determineStage\<close> returns
  long-term iff age \<ge> workingHours and accessCount \<ge> longTermAccessThreshold; otherwise working
  iff age \<ge> shortTermHours or accessCount \<ge> workingAccessThreshold; otherwise short-term. In
  particular a fact of age 25 h with accessCount 6, under workingHours = 24 and
  longTermAccessThreshold = 5, is long-term, whatever the other two settings are.
\<close>

theorem determineStage_classifies:
  "(determineStage config now f = LongTerm \<longleftrightarrow>
      of_int (now - createdAt f) / 3600000 \<ge> workingHours config
      \<and> (case accessCount f of Absent \<Rightarrow> 0 | Undefined \<Rightarrow> 0 | Value n \<Rightarrow> of_nat n)
            \<ge> longTermAccessThreshold config)
   \<and> (determineStage config now f = Working \<longleftrightarrow>
      \<not> (of_int (now - createdAt f) / 3600000 \<ge> workingHours config
         \<and> (case accessCount f of Absent \<Rightarrow> 0 | Undefined \<Rightarrow> 0 | Value n \<Rightarrow> of_nat n)
               \<ge> longTermAccessThreshold config)
      \<and> (of_int (now - createdAt f) / 3600000 \<ge> shortTermHours config
         \<or> (case accessCount f of Absent \<Rightarrow> 0 | Undefined \<Rightarrow> 0 | Value n \<Rightarrow> of_nat n)
               \<ge> workingAccessThreshold config))
   \<and> (determineStage config now f = ShortTerm \<longleftrightarrow>
      \<not> (of_int (now - createdAt f) / 3600000 \<ge> workingHours config
         \<and> (case accessCount f of Absent \<Rightarrow> 0 | Undefined \<Rightarrow> 0 | Value n \<Rightarrow> of_nat n)
               \<ge> longTermAccessThreshold config)
      \<and> \<not> (of_int (now - createdAt f) / 3600000 \<ge> shortTermHours config
         \<or> (case accessCount f of Absent \<Rightarrow> 0 | Undefined \<Rightarrow> 0 | Value n \<Rightarrow> of_nat n)
               \<ge> workingAccessThreshold config))
   \<and> (now - createdAt f = 25 * 3600000 \<and> accessCount f = Value 6
        \<and> workingHours config = 24 \<and> longTermAccessThreshold config = 5
      \<longrightarrow> determineStage config now f = LongTerm)"
  by (cases "accessCount f") (simp_all add: determineStage_def Let_def)

theorem determineStage_classifies_witness:
  "determineStage (ConsolidationWorker_config \<lparr> shortTermHours_opt = None, workingHours_opt = Some 24,
        workingAccessThreshold_opt = None, longTermAccessThreshold_opt = Some 5 \<rparr>)
      (1700000000000 + 25 * 3600000)
      \<lparr> fid = 1, subject = ''User'', predicate = ''LIKES'', object = ''Coffee'', confidence = 9/10,
        importance = Value 5, sentiment = Absent, source = ''test'', createdAt = 1700000000000,
        updatedAt = 1700000000000, invalidatedAt = None, accessCount = Value 6, memoryStage = Absent \<rparr>
    = LongTerm
   \<and> determineStage (ConsolidationWorker_config \<lparr> shortTermHours_opt = None, workingHours_opt = Some 24,
        workingAccessThreshold_opt = None, longTermAccessThreshold_opt = Some 5 \<rparr>)
      (1700000000000 + 60000)
      \<lparr> fid = 1, subject = ''User'', predicate = ''LIKES'', object = ''Coffee'', confidence = 9/10,
        importance = Value 5, sentiment = Absent, source = ''test'', createdAt = 1700000000000,
        updatedAt = 1700000000000, invalidatedAt = None, accessCount = Value 6, memoryStage = Absent \<rparr>
    = Working
   \<and> determineStage (ConsolidationWorker_config \<lparr> shortTermHours_opt = None, workingHours_opt = Some 24,
        workingAccessThreshold_opt = None, longTermAccessThreshold_opt = Some 5 \<rparr>)
      (1700000000000 + 60000)
      \<lparr> fid = 1, subject = ''User'', predicate = ''LIKES'', object = ''Coffee'', confidence = 9/10,
        importance = Value 5, sentiment = Absent, source = ''test'', createdAt = 1700000000000,
        updatedAt = 1700000000000, invalidatedAt = None, accessCount = Undefined, memoryStage = Absent \<rparr>
    = ShortTerm"
proof -
  let ?config = "ConsolidationWorker_config \<lparr> shortTermHours_opt = None, workingHours_opt = Some 24,
        workingAccessThreshold_opt = None, longTermAccessThreshold_opt = Some 5 \<rparr>"
  let ?f = "\<lparr> fid = 1, subject = ''User'', predicate = ''LIKES'', object = ''Coffee'', confidence = 9/10,
        importance = Value 5, sentiment = Absent, source = ''test'', createdAt = 1700000000000,
        updatedAt = 1700000000000, invalidatedAt = None, accessCount = Value 6, memoryStage = Absent \<rparr>"
  let ?g = "\<lparr> fid = 1, subject = ''User'', predicate = ''LIKES'', object = ''Coffee'', confidence = 9/10,
        importance = Value 5, sentiment = Absent, source = ''test'', createdAt = 1700000000000,
        updatedAt = 1700000000000, invalidatedAt = None, accessCount = Undefined, memoryStage = Absent \<rparr>"
  have a: "determineStage ?config (1700000000000 + 25 * 3600000) ?f = LongTerm"
    using determineStage_classifies [of ?config "1700000000000 + 25 * 3600000" ?f]
    by (simp add: ConsolidationWorker_config_def)
  have b: "determineStage ?config (1700000000000 + 60000) ?f = Working"
    using determineStage_classifies [of ?config "1700000000000 + 60000" ?f]
    by (simp add: ConsolidationWorker_config_def)
  have c: "determineStage ?config (1700000000000 + 60000) ?g = ShortTerm"
    using determineStage_classifies [of ?config "1700000000000 + 60000" ?g]
    by (simp add: ConsolidationWorker_config_def)
  from a b c show ?thesis by simp
qed

section \<open>Conflict resolver: the loop, one operation at a time\<close>

lemma resolveLoop_Cons:
  "resolveLoop s ex (opn # ops) acc =
     resolveLoop s ex ops
       \<lparr> resolvedOperations = resolvedOperations acc @ resolvedOperations (resolveStep s ex opn),
         conflicts = conflicts acc @ conflicts (resolveStep s ex opn) \<rparr>"
  by (cases acc) (simp add: resolveStep_def split: option.splits ConflictStrategy.splits)

lemma resolveLoop_ops:
  "resolvedOperations (resolveLoop s ex ops acc) =
     resolvedOperations acc @ concat (map (\<lambda>opn. resolvedOperations (resolveStep s ex opn)) ops)"
proof (induction ops arbitrary: acc)
  case Nil
  show ?case by simp
next
  case (Cons opn ops)
  show ?case
    by (simp only: resolveLoop_Cons Cons.IH) simp
qed

lemma resolveLoop_conflicts:
  "conflicts (resolveLoop s ex ops acc) =
     conflicts acc @ concat (map (\<lambda>opn. conflicts (resolveStep s ex opn)) ops)"
proof (induction ops arbitrary: acc)
  case Nil
  show ?case by simp
next
  case (Cons opn ops)
  show ?case
    by (simp only: resolveLoop_Cons Cons.IH) simp
qed

text \<open>A batch resolves to the concatenation of what each of its operations resolves to.\<close>

lemma resolve_batch:
  assumes "getFacts adapter st userId (Some validOnlyFilter) = Inr existingFacts"
  shows "resolve strategy userId ops adapter st =
           Inr \<lparr> resolvedOperations = concat (map (\<lambda>opn. resolvedOperations (resolveStep strategy existingFacts opn)) ops),
                 conflicts = concat (map (\<lambda>opn. conflicts (resolveStep strategy existingFacts opn)) ops) \<rparr>"
proof -
  let ?r = "resolveLoop strategy existingFacts ops \<lparr> resolvedOperations = [], conflicts = [] \<rparr>"
  have "?r = \<lparr> resolvedOperations = resolvedOperations ?r, conflicts = conflicts ?r \<rparr>"
    by simp
  then show ?thesis
    using assms by (simp add: resolve_def resolveLoop_ops resolveLoop_conflicts)
qed

text \<open>The three outcomes of one INSERT or UPDATE that finds an existing fact.\<close>

lemma resolveStep_same:
  assumes "op_kind opn \<noteq> DELETE"
    and "find (\<lambda>f. subject f = op_subject opn \<and> predicate f = op_predicate opn) existingFacts = Some ex"
    and "object ex = op_object opn"
  shows "resolveStep strategy existingFacts opn = \<lparr> resolvedOperations = [], conflicts = [] \<rparr>"
  using assms by (simp add: resolveStep_def)

lemma resolveStep_conflict:
  assumes "op_kind opn \<noteq> DELETE"
    and "find (\<lambda>f. subject f = op_subject opn \<and> predicate f = op_predicate opn) existingFacts = Some ex"
    and "object ex \<noteq> op_object opn"
  shows "resolveStep strategy existingFacts opn =
     (case strategy of
        S_latest \<Rightarrow>
          \<lparr> resolvedOperations = [deleteOf ex ''Replaced by new value: '' opn, opn],
            conflicts = [\<lparr> existingFact = ex, newOperation = opn, resolution = R_replace \<rparr>] \<rparr>
      | S_keep_both \<Rightarrow>
          \<lparr> resolvedOperations = [opn],
            conflicts = [\<lparr> existingFact = ex, newOperation = opn, resolution = R_keep_both \<rparr>] \<rparr>
      | S_merge \<Rightarrow>
          \<lparr> resolvedOperations = [deleteOf ex ''Merged with new value: '' opn, opn],
            conflicts = [\<lparr> existingFact = ex, newOperation = opn, resolution = R_merge \<rparr>] \<rparr>)"
  using assms by (simp add: resolveStep_def split: ConflictStrategy.splits)

text \<open>What the resolver reads from an in-memory store: the valid facts of the user, in insertion order.\<close>

lemma InMemory_valid_facts:
  "getFacts InMemoryAdapter st userId (Some validOnlyFilter)
     = Inr (filter (\<lambda>f. invalidatedAt f = None) (Map_values (st userId)))"
  by (simp add: InMemoryAdapter_def InMemoryAdapter_getFacts_def validOnlyFilter_def)

section \<open>Conflict resolver: claims\<close>

text \<open>
  C7. For every strategy, an INSERT or UPDATE whose object equals (exactly, case-sensitively) the
  object of the existing valid fact found for its (subject, predicate) is dropped: wherever it
  stands in the batch it adds nothing to the resolved operations, neither a DELETE nor an INSERT,
  and records no conflict; resolved alone it yields zero operations.
\<close>

theorem resolve_same_value_dropped:
  assumes "getFacts adapter st userId (Some validOnlyFilter) = Inr existingFacts"
    and "op_kind opn = INSERT \<or> op_kind opn = UPDATE"
    and "find (\<lambda>f. subject f = op_subject opn \<and> predicate f = op_predicate opn) existingFacts = Some ex"
    and "object ex = op_object opn"
  shows "\<exists>r r1 r2.
           resolve strategy userId (ops1 @ [opn] @ ops2) adapter st = Inr r
         \<and> resolve strategy userId ops1 adapter st = Inr r1
         \<and> resolve strategy userId ops2 adapter st = Inr r2
         \<and> resolvedOperations r = resolvedOperations r1 @ resolvedOperations r2
         \<and> conflicts r = conflicts r1 @ conflicts r2
         \<and> resolve strategy userId [opn] adapter st = Inr \<lparr> resolvedOperations = [], conflicts = [] \<rparr>"
proof -
  from assms(2) have k: "op_kind opn \<noteq> DELETE" by auto
  show ?thesis
    by (simp add: resolve_batch [OF assms(1)] resolveStep_same [OF k assms(3) assms(4)])
qed

theorem resolve_same_value_dropped_witness:
  "resolve S_keep_both ''user1''
      [\<lparr> op_kind = UPDATE, op_subject = ''User'', op_predicate = ''LOCATION'', op_object = ''NYC'',
         op_reason = None, op_confidence = Some (9/10), op_importance = Some 5, op_sentiment = None \<rparr>]
      InMemoryAdapter
      (InMemory_empty(''user1'' :=
         [(1, \<lparr> fid = 1, subject = ''User'', predicate = ''LOCATION'', object = ''NYC'', confidence = 9/10,
                importance = Value 5, sentiment = Absent, source = ''s1'', createdAt = 1700000000000,
                updatedAt = 1700000000000, invalidatedAt = None, accessCount = Absent,
                memoryStage = Absent \<rparr>)]))
    = Inr \<lparr> resolvedOperations = [], conflicts = [] \<rparr>"
proof -
  let ?nyc = "\<lparr> fid = 1, subject = ''User'', predicate = ''LOCATION'', object = ''NYC'', confidence = 9/10,
                importance = Value 5, sentiment = Absent, source = ''s1'', createdAt = 1700000000000,
                updatedAt = 1700000000000, invalidatedAt = None, accessCount = Absent,
                memoryStage = Absent \<rparr>"
  let ?opn = "\<lparr> op_kind = UPDATE, op_subject = ''User'', op_predicate = ''LOCATION'', op_object = ''NYC'',
         op_reason = None, op_confidence = Some (9/10), op_importance = Some 5, op_sentiment = None \<rparr>"
  have h1: "getFacts InMemoryAdapter (InMemory_empty(''user1'' := [(1, ?nyc)])) ''user1'' (Some validOnlyFilter)
              = Inr [?nyc]"
    by (simp add: InMemoryAdapter_def InMemoryAdapter_getFacts_def validOnlyFilter_def Map_values_def)
  have h2: "op_kind ?opn = INSERT \<or> op_kind ?opn = UPDATE" by simp
  have h3: "find (\<lambda>f. subject f = op_subject ?opn \<and> predicate f = op_predicate ?opn) [?nyc] = Some ?nyc"
    by simp
  have h4: "object ?nyc = op_object ?opn" by simp
  from resolve_same_value_dropped [OF h1 h2 h3 h4, of S_keep_both "[]" "[]"]
  show ?thesis by blast
qed

text \<open>
  C2. Under the strategy \<open>latest\<close>, an INSERT or UPDATE whose (subject, predicate) finds an existing
  valid fact with a different object contributes exactly two operations, in this order: a DELETE
  of the existing fact, whose reason is \<open>Replaced by new value: \<close> followed by the new object, and
  then the operation itself. Scenario A (existing (User, LOCATION, NYC), INSERT (User, LOCATION,
  San Francisco)) is the witness below.
\<close>

theorem resolve_latest_delete_then_insert:
  assumes "getFacts adapter st userId (Some validOnlyFilter) = Inr existingFacts"
    and "op_kind opn = INSERT \<or> op_kind opn = UPDATE"
    and "find (\<lambda>f. subject f = op_subject opn \<and> predicate f = op_predicate opn) existingFacts = Some ex"
    and "object ex \<noteq> op_object opn"
  shows "\<exists>r r1 r2.
           resolve S_latest userId (ops1 @ [opn] @ ops2) adapter st = Inr r
         \<and> resolve S_latest userId ops1 adapter st = Inr r1
         \<and> resolve S_latest userId ops2 adapter st = Inr r2
         \<and> resolvedOperations r =
              resolvedOperations r1
              @ [\<lparr> op_kind = DELETE, op_subject = subject ex, op_predicate = predicate ex,
                   op_object = object ex,
                   op_reason = Some (''Replaced by new value: '' @ op_object opn),
                   op_confidence = None, op_importance = None, op_sentiment = None \<rparr>,
                 opn]
              @ resolvedOperations r2
         \<and> resolve S_latest userId [opn] adapter st =
              Inr \<lparr> resolvedOperations =
                      [\<lparr> op_kind = DELETE, op_subject = subject ex, op_predicate = predicate ex,
                         op_object = object ex,
                         op_reason = Some (''Replaced by new value: '' @ op_object opn),
                         op_confidence = None, op_importance = None, op_sentiment = None \<rparr>,
                       opn],
                    conflicts = [\<lparr> existingFact = ex, newOperation = opn, resolution = R_replace \<rparr>] \<rparr>"
proof -
  from assms(2) have k: "op_kind opn \<noteq> DELETE" by auto
  show ?thesis
    by (simp add: resolve_batch [OF assms(1)] resolveStep_conflict [OF k assms(3) assms(4)] deleteOf_def)
qed

theorem resolve_latest_delete_then_insert_witness:
  "resolve S_latest ''user1''
      [\<lparr> op_kind = INSERT, op_subject = ''User'', op_predicate = ''LOCATION'',
         op_object = ''San Francisco'', op_reason = None, op_confidence = Some (9/10),
         op_importance = Some 5, op_sentiment = None \<rparr>]
      InMemoryAdapter
      (InMemory_empty(''user1'' :=
         [(1, \<lparr> fid = 1, subject = ''User'', predicate = ''LOCATION'', object = ''NYC'', confidence = 9/10,
                importance = Value 5, sentiment = Absent, source = ''s1'', createdAt = 1700000000000,
                updatedAt = 1700000000000, invalidatedAt = None, accessCount = Absent,
                memoryStage = Absent \<rparr>)]))
    = Inr \<lparr> resolvedOperations =
              [\<lparr> op_kind = DELETE, op_subject = ''User'', op_predicate = ''LOCATION'', op_object = ''NYC'',
                 op_reason = Some ''Replaced by new value: San Francisco'',
                 op_confidence = None, op_importance = None, op_sentiment = None \<rparr>,
               \<lparr> op_kind = INSERT, op_subject = ''User'', op_predicate = ''LOCATION'',
                 op_object = ''San Francisco'', op_reason = None, op_confidence = Some (9/10),
                 op_importance = Some 5, op_sentiment = None \<rparr>],
            conflicts =
              [\<lparr> existingFact =
                   \<lparr> fid = 1, subject = ''User'', predicate = ''LOCATION'', object = ''NYC'',
                     confidence = 9/10, importance = Value 5, sentiment = Absent, source = ''s1'',
                     createdAt = 1700000000000, updatedAt = 1700000000000, invalidatedAt = None,
                     accessCount = Absent, memoryStage = Absent \<rparr>,
                 newOperation =
                   \<lparr> op_kind = INSERT, op_subject = ''User'', op_predicate = ''LOCATION'',
                     op_object = ''San Francisco'', op_reason = None, op_confidence = Some (9/10),
                     op_importance = Some 5, op_sentiment = None \<rparr>,
                 resolution = R_replace \<rparr>] \<rparr>"
proof -
  let ?nyc = "\<lparr> fid = 1, subject = ''User'', predicate = ''LOCATION'', object = ''NYC'', confidence = 9/10,
                importance = Value 5, sentiment = Absent, source = ''s1'', createdAt = 1700000000000,
                updatedAt = 1700000000000, invalidatedAt = None, accessCount = Absent,
                memoryStage = Absent \<rparr>"
  let ?opn = "\<lparr> op_kind = INSERT, op_subject = ''User'', op_predicate = ''LOCATION'',
         op_object = ''San Francisco'', op_reason = None, op_confidence = Some (9/10),
         op_importance = Some 5, op_sentiment = None \<rparr>"
  have h1: "getFacts InMemoryAdapter (InMemory_empty(''user1'' := [(1, ?nyc)])) ''user1'' (Some validOnlyFilter)
              = Inr [?nyc]"
    by (simp add: InMemoryAdapter_def InMemoryAdapter_getFacts_def validOnlyFilter_def Map_values_def)
  have h2: "op_kind ?opn = INSERT \<or> op_kind ?opn = UPDATE" by simp
  have h3: "find (\<lambda>f. subject f = op_subject ?opn \<and> predicate f = op_predicate ?opn) [?nyc] = Some ?nyc"
    by simp
  have h4: "object ?nyc \<noteq> op_object ?opn" by simp
  from resolve_latest_delete_then_insert [OF h1 h2 h3 h4, of "[]" "[]"]
  show ?thesis by auto
qed




section \<open>Decay engine: claims\<close>

text \<open>
  C6, as the code has it. For every regular-class fact (upper-cased predicate neither in the
  permanent nor in the ephemeral set) whose reinforcement count is below the reinforcement
  threshold, under a configuration in which the TTL that applies to the fact is positive
  (\<open>lowWeightTtlDays\<close> when its confidence is below 0.5, \<open>defaultTtlDays\<close> otherwise, which may
  also be \<open>null\<close>), the decay weight is a number between 0 and 1 and does not increase with
  time: the weight at \<open>t2\<close> is at most the weight at \<open>t1\<close> whenever \<open>t1 < t2\<close>. (Every step of
  the formula is monotone in the age, also as IEEE doubles round it.)
\<close>

theorem decay_weight_monotone:
  assumes "upper (predicate f) \<notin> set (permanentPredicates config)"
    and "upper (predicate f) \<notin> set (ephemeralPredicates config)"
    and "(case reinforcementCount f of None \<Rightarrow> 0 | Some n \<Rightarrow> n) < reinforcementThreshold config"
    and "confidence f < 1/2 \<longrightarrow> 0 < lowWeightTtlDays config"
    and "\<not> confidence f < 1/2 \<longrightarrow> (\<forall>d. defaultTtlDays config = Some d \<longrightarrow> 0 < d)"
    and "t1 < t2"
  shows "\<exists>w1 w2. calculateDecayWeight upper config t1 f = Num w1
               \<and> calculateDecayWeight upper config t2 f = Num w2
               \<and> w2 \<le> w1 \<and> 0 \<le> w2 \<and> w1 \<le> 1"
proof (cases "enabled config \<and> ttlDays config f \<noteq> None")
  case False
  then have "calculateDecayWeight upper config t1 f = Num 1" "calculateDecayWeight upper config t2 f = Num 1"
    using assms(1,2,3) by (auto simp: calculateDecayWeight_def Let_def reinforcements_def)
  then show ?thesis by simp
next
  case True
  then obtain days where days: "ttlDays config f = Some days" by auto
  with assms(4,5) have pos: "0 < days * 24 * 60 * 60 * 1000"
    by (auto simp: ttlDays_def split: if_splits)
  let ?boost = "min (1/2) (of_nat (reinforcements f) * (1/10)) :: rat"
  let ?life = "\<lambda>t. max (0::rat) (1 - of_int (t - lastReinforced f) / (days * 24 * 60 * 60 * 1000))"
  have w: "calculateDecayWeight upper config t f = Num (min 1 (?life t + ?boost))" for t
    using True days pos assms(1,2,3)
    by (simp add: calculateDecayWeight_def Let_def reinforcements_def remainingLife_def)
  have "(of_int (t1 - lastReinforced f) :: rat) \<le> of_int (t2 - lastReinforced f)"
    using assms(6) by simp
  then have "(of_int (t1 - lastReinforced f) :: rat) / (days * 24 * 60 * 60 * 1000)
      \<le> of_int (t2 - lastReinforced f) / (days * 24 * 60 * 60 * 1000)"
    using pos by (simp add: divide_right_mono)
  then have life: "?life t2 \<le> ?life t1"
    by (simp add: max.coboundedI2)
  have boost: "0 \<le> ?boost" by simp
  have mono: "min 1 (?life t2 + ?boost) \<le> min 1 (?life t1 + ?boost)"
    using life by (simp add: min.coboundedI2)
  have lower: "0 \<le> min 1 (?life t2 + ?boost)"
    using boost by (simp add: add_nonneg_nonneg)
  have upper: "min 1 (?life t1 + ?boost) \<le> 1" by simp
  from w [of t1] w [of t2] mono lower upper show ?thesis by blast
qed

theorem decay_weight_monotone_witness:
  "calculateDecayWeight toUpperCase
      (DecayManager_config \<lparr> enabled_opt = None, defaultTtlDays_opt = None, lowWeightTtlDays_opt = None,
         permanentPredicates_opt = None, ephemeralPredicates_opt = None, ephemeralTtlHours_opt = None,
         reinforcementThreshold_opt = None \<rparr>)
      (1700000000000 + 10 * 24 * 60 * 60 * 1000)
      \<lparr> fid = 1, subject = ''User'', predicate = ''LIKES'', object = ''Coffee'', confidence = 9/10,
        importance = Value 5, sentiment = Absent, source = ''test'', createdAt = 1700000000000,
        updatedAt = 1700000000000, invalidatedAt = None, accessCount = Absent, memoryStage = Absent,
        reinforcementCount = Some 1, lastReinforcedAt = None \<rparr>
    = Num (89/90)
   \<and> calculateDecayWeight toUpperCase
      (DecayManager_config \<lparr> enabled_opt = None, defaultTtlDays_opt = None, lowWeightTtlDays_opt = None,
         permanentPredicates_opt = None, ephemeralPredicates_opt = None, ephemeralTtlHours_opt = None,
         reinforcementThreshold_opt = None \<rparr>)
      (1700000000000 + 20 * 24 * 60 * 60 * 1000)
      \<lparr> fid = 1, subject = ''User'', predicate = ''LIKES'', object = ''Coffee'', confidence = 9/10,
        importance = Value 5, sentiment = Absent, source = ''test'', createdAt = 1700000000000,
        updatedAt = 1700000000000, invalidatedAt = None, accessCount = Absent, memoryStage = Absent,
        reinforcementCount = Some 1, lastReinforcedAt = None \<rparr>
    = Num (79/90)
   \<and> (79/90 :: rat) \<le> 89/90"
proof -
  let ?config = "DecayManager_config \<lparr> enabled_opt = None, defaultTtlDays_opt = None,
         lowWeightTtlDays_opt = None, permanentPredicates_opt = None, ephemeralPredicates_opt = None,
         ephemeralTtlHours_opt = None, reinforcementThreshold_opt = None \<rparr>"
  let ?f = "\<lparr> fid = 1, subject = ''User'', predicate = ''LIKES'', object = ''Coffee'', confidence = 9/10,
        importance = Value 5, sentiment = Absent, source = ''test'', createdAt = 1700000000000,
        updatedAt = 1700000000000, invalidatedAt = None, accessCount = Absent, memoryStage = Absent,
        reinforcementCount = Some 1, lastReinforcedAt = None \<rparr>"
  have h1: "toUpperCase (predicate ?f) \<notin> set (permanentPredicates ?config)"
    by (simp add: DecayManager_config_def DEFAULT_PERMANENT_PREDICATES_def
          toUpperCase_def toUpperChar_def)
  have h2: "toUpperCase (predicate ?f) \<notin> set (ephemeralPredicates ?config)"
    by (simp add: DecayManager_config_def DEFAULT_EPHEMERAL_PREDICATES_def
          toUpperCase_def toUpperChar_def)
  have h3: "(case reinforcementCount ?f of None \<Rightarrow> 0 | Some n \<Rightarrow> n) < reinforcementThreshold ?config"
    by (simp add: DecayManager_config_def)
  have h4: "confidence ?f < 1/2 \<longrightarrow> 0 < lowWeightTtlDays ?config"
    by (simp add: DecayManager_config_def)
  have h5: "\<not> confidence ?f < 1/2 \<longrightarrow> (\<forall>d. defaultTtlDays ?config = Some d \<longrightarrow> 0 < d)"
    by (simp add: DecayManager_config_def)
  have h6: "(1700000000000 + 10 * 24 * 60 * 60 * 1000 :: int) < 1700000000000 + 20 * 24 * 60 * 60 * 1000"
    by simp
  have e1: "calculateDecayWeight toUpperCase ?config (1700000000000 + 10 * 24 * 60 * 60 * 1000) ?f = Num (89/90)"
    by (simp add: calculateDecayWeight_def DecayManager_config_def DEFAULT_PERMANENT_PREDICATES_def
          DEFAULT_EPHEMERAL_PREDICATES_def toUpperCase_def toUpperChar_def reinforcements_def
          lastReinforced_def ttlDays_def remainingLife_def)
  have e2: "calculateDecayWeight toUpperCase ?config (1700000000000 + 20 * 24 * 60 * 60 * 1000) ?f = Num (79/90)"
    by (simp add: calculateDecayWeight_def DecayManager_config_def DEFAULT_PERMANENT_PREDICATES_def
          DEFAULT_EPHEMERAL_PREDICATES_def toUpperCase_def toUpperChar_def reinforcements_def
          lastReinforced_def ttlDays_def remainingLife_def)
  from decay_weight_monotone [where upper = toUpperCase and config = ?config and f = ?f,
         OF h1 h2 h3 h4 h5 h6] e1 e2
  show ?thesis by simp
qed

text \<open>
  C6 as stated fails for a configuration whose TTL is not positive, which the constructor
  accepts. With \<open>lowWeightTtlDays = -7\<close>, a regular-class fact of confidence 0.3, never
  reinforced, has the weight 3/7 four days before its creation time and 6/7 one day before it:
  the weight increases with time. With \<open>lowWeightTtlDays = 0\<close> the weight of the same fact at its
  creation time is \<open>NaN\<close>, which is at most no number, and 0 one millisecond later.
\<close>

theorem decay_weight_counterexample:
  "toUpperCase ''LIKES'' \<notin> set (permanentPredicates
      (DecayManager_config \<lparr> enabled_opt = None, defaultTtlDays_opt = None, lowWeightTtlDays_opt = Some (-7),
         permanentPredicates_opt = None, ephemeralPredicates_opt = None, ephemeralTtlHours_opt = None,
         reinforcementThreshold_opt = None \<rparr>))
   \<and> toUpperCase ''LIKES'' \<notin> set (ephemeralPredicates
      (DecayManager_config \<lparr> enabled_opt = None, defaultTtlDays_opt = None, lowWeightTtlDays_opt = Some (-7),
         permanentPredicates_opt = None, ephemeralPredicates_opt = None, ephemeralTtlHours_opt = None,
         reinforcementThreshold_opt = None \<rparr>))
   \<and> (1700000000000 - 4 * 24 * 60 * 60 * 1000 :: int) < 1700000000000 - 1 * 24 * 60 * 60 * 1000
   \<and> calculateDecayWeight toUpperCase
      (DecayManager_config \<lparr> enabled_opt = None, defaultTtlDays_opt = None, lowWeightTtlDays_opt = Some (-7),
         permanentPredicates_opt = None, ephemeralPredicates_opt = None, ephemeralTtlHours_opt = None,
         reinforcementThreshold_opt = None \<rparr>)
      (1700000000000 - 4 * 24 * 60 * 60 * 1000)
      \<lparr> fid = 1, subject = ''User'', predicate = ''LIKES'', object = ''Coffee'', confidence = 3/10,
        importance = Value 5, sentiment = Absent, source = ''test'', createdAt = 1700000000000,
        updatedAt = 1700000000000, invalidatedAt = None, accessCount = Absent, memoryStage = Absent,
        reinforcementCount = None, lastReinforcedAt = None \<rparr>
     = Num (3/7)
   \<and> calculateDecayWeight toUpperCase
      (DecayManager_config \<lparr> enabled_opt = None, defaultTtlDays_opt = None, lowWeightTtlDays_opt = Some (-7),
         permanentPredicates_opt = None, ephemeralPredicates_opt = None, ephemeralTtlHours_opt = None,
         reinforcementThreshold_opt = None \<rparr>)
      (1700000000000 - 1 * 24 * 60 * 60 * 1000)
      \<lparr> fid = 1, subject = ''User'', predicate = ''LIKES'', object = ''Coffee'', confidence = 3/10,
        importance = Value 5, sentiment = Absent, source = ''test'', createdAt = 1700000000000,
        updatedAt = 1700000000000, invalidatedAt = None, accessCount = Absent, memoryStage = Absent,
        reinforcementCount = None, lastReinforcedAt = None \<rparr>
     = Num (6/7)
   \<and> \<not> (6/7 :: rat) \<le> 3/7
   \<and> calculateDecayWeight toUpperCase
      (DecayManager_config \<lparr> enabled_opt = None, defaultTtlDays_opt = None, lowWeightTtlDays_opt = Some 0,
         permanentPredicates_opt = None, ephemeralPredicates_opt = None, ephemeralTtlHours_opt = None,
         reinforcementThreshold_opt = None \<rparr>)
      1700000000000
      \<lparr> fid = 1, subject = ''User'', predicate = ''LIKES'', object = ''Coffee'', confidence = 3/10,
        importance = Value 5, sentiment = Absent, source = ''test'', createdAt = 1700000000000,
        updatedAt = 1700000000000, invalidatedAt = None, accessCount = Absent, memoryStage = Absent,
        reinforcementCount = None, lastReinforcedAt = None \<rparr>
     = NaN
   \<and> calculateDecayWeight toUpperCase
      (DecayManager_config \<lparr> enabled_opt = None, defaultTtlDays_opt = None, lowWeightTtlDays_opt = Some 0,
         permanentPredicates_opt = None, ephemeralPredicates_opt = None, ephemeralTtlHours_opt = None,
         reinforcementThreshold_opt = None \<rparr>)
      (1700000000000 + 1)
      \<lparr> fid = 1, subject = ''User'', predicate = ''LIKES'', object = ''Coffee'', confidence = 3/10,
        importance = Value 5, sentiment = Absent, source = ''test'', createdAt = 1700000000000,
        updatedAt = 1700000000000, invalidatedAt = None, accessCount = Absent, memoryStage = Absent,
        reinforcementCount = None, lastReinforcedAt = None \<rparr>
     = Num 0"
  by (simp add: calculateDecayWeight_def DecayManager_config_def DEFAULT_PERMANENT_PREDICATES_def
        DEFAULT_EPHEMERAL_PREDICATES_def toUpperCase_def toUpperChar_def reinforcements_def
        lastReinforced_def ttlDays_def remainingLife_def)

text \<open>
  C1, as the code has it. \<open>shouldPrune\<close> never reads \<open>importance\<close>: changing a fact's importance
  never changes its answer. What it does protect is the permanent predicate class and the
  well-reinforced facts: for every fact, of whatever importance, and every current time it returns
  false when decay is disabled, when the upper-cased predicate is in the permanent set, or when the
  reinforcement count has reached the reinforcement threshold.
\<close>

theorem shouldPrune_protects_by_class:
  "(\<not> enabled config \<or> isPermanent upper config (predicate f)
      \<or> reinforcementThreshold config \<le> reinforcements f
    \<longrightarrow> \<not> shouldPrune upper config now f)
   \<and> shouldPrune upper config now (f\<lparr>importance := i\<rparr>) = shouldPrune upper config now f"
proof -
  have lr: "lastReinforced (f\<lparr>importance := i\<rparr>) = lastReinforced f"
    by (simp add: lastReinforced_def split: option.splits)
  have rf: "reinforcements (f\<lparr>importance := i\<rparr>) = reinforcements f"
    by (simp add: reinforcements_def)
  have td: "ttlDays config (f\<lparr>importance := i\<rparr>) = ttlDays config f"
    by (simp add: ttlDays_def)
  have w: "calculateDecayWeight upper config now (f\<lparr>importance := i\<rparr>) = calculateDecayWeight upper config now f"
    by (simp add: calculateDecayWeight_def Let_def lr rf td split: option.splits)
  have e: "calculateExpiryDate upper config (f\<lparr>importance := i\<rparr>) = calculateExpiryDate upper config f"
    by (simp add: calculateExpiryDate_def lr rf td split: option.splits)
  have same: "shouldPrune upper config now (f\<lparr>importance := i\<rparr>) = shouldPrune upper config now f"
    by (simp add: shouldPrune_def w e)
  have safe: "\<not> enabled config \<or> isPermanent upper config (predicate f)
      \<or> reinforcementThreshold config \<le> reinforcements f \<longrightarrow> \<not> shouldPrune upper config now f"
    by (auto simp: shouldPrune_def calculateDecayWeight_def calculateExpiryDate_def isPermanent_def)
  from safe same show ?thesis by blast
qed

theorem shouldPrune_protects_by_class_witness:
  "\<not> shouldPrune toUpperCase
      (DecayManager_config \<lparr> enabled_opt = None, defaultTtlDays_opt = None, lowWeightTtlDays_opt = None,
         permanentPredicates_opt = None, ephemeralPredicates_opt = None, ephemeralTtlHours_opt = None,
         reinforcementThreshold_opt = None \<rparr>)
      (1700000000000 + 365 * 24 * 60 * 60 * 1000)
      \<lparr> fid = 1, subject = ''User'', predicate = ''Allergy'', object = ''Peanuts'', confidence = 9/10,
        importance = Value 10, sentiment = Absent, source = ''test'', createdAt = 1700000000000,
        updatedAt = 1700000000000, invalidatedAt = None, accessCount = Absent, memoryStage = Absent,
        reinforcementCount = None, lastReinforcedAt = None \<rparr>"
proof -
  let ?config = "DecayManager_config \<lparr> enabled_opt = None, defaultTtlDays_opt = None,
         lowWeightTtlDays_opt = None, permanentPredicates_opt = None, ephemeralPredicates_opt = None,
         ephemeralTtlHours_opt = None, reinforcementThreshold_opt = None \<rparr>"
  let ?f = "\<lparr> fid = 1, subject = ''User'', predicate = ''Allergy'', object = ''Peanuts'', confidence = 9/10,
        importance = Value 10, sentiment = Absent, source = ''test'', createdAt = 1700000000000,
        updatedAt = 1700000000000, invalidatedAt = None, accessCount = Absent, memoryStage = Absent,
        reinforcementCount = None, lastReinforcedAt = None \<rparr>"
  have h: "isPermanent toUpperCase ?config (predicate ?f)"
    by (simp add: isPermanent_def DecayManager_config_def DEFAULT_PERMANENT_PREDICATES_def
          toUpperCase_def toUpperChar_def)
  from shouldPrune_protects_by_class [where upper = toUpperCase and config = ?config and f = ?f
         and now = "1700000000000 + 365 * 24 * 60 * 60 * 1000"] h
  show ?thesis by blast
qed

text \<open>
  C1 as stated fails: under the default configuration a fact of importance 10 with the predicate
  \<open>HAS_ALLERGY\<close> (a regular-class predicate: only \<open>ALLERGY\<close> is in the permanent set), confidence
  0.9 and never reinforced, is selected for pruning 91 days after its creation.
\<close>

theorem shouldPrune_importance_counterexample:
  "importance
      \<lparr> fid = 1, subject = ''User'', predicate = ''HAS_ALLERGY'', object = ''Peanuts'', confidence = 9/10,
        importance = Value 10, sentiment = Absent, source = ''test'', createdAt = 1700000000000,
        updatedAt = 1700000000000, invalidatedAt = None, accessCount = Absent, memoryStage = Absent,
        reinforcementCount = None, lastReinforcedAt = None \<rparr> = Value 10
   \<and> (9::rat) \<le> 10
   \<and> shouldPrune toUpperCase
      (DecayManager_config \<lparr> enabled_opt = None, defaultTtlDays_opt = None, lowWeightTtlDays_opt = None,
         permanentPredicates_opt = None, ephemeralPredicates_opt = None, ephemeralTtlHours_opt = None,
         reinforcementThreshold_opt = None \<rparr>)
      (1700000000000 + 91 * 24 * 60 * 60 * 1000)
      \<lparr> fid = 1, subject = ''User'', predicate = ''HAS_ALLERGY'', object = ''Peanuts'', confidence = 9/10,
        importance = Value 10, sentiment = Absent, source = ''test'', createdAt = 1700000000000,
        updatedAt = 1700000000000, invalidatedAt = None, accessCount = Absent, memoryStage = Absent,
        reinforcementCount = None, lastReinforcedAt = None \<rparr>"
  by (simp add: shouldPrune_def calculateDecayWeight_def DecayManager_config_def
        DEFAULT_PERMANENT_PREDICATES_def DEFAULT_EPHEMERAL_PREDICATES_def toUpperCase_def
        toUpperChar_def reinforcements_def lastReinforced_def ttlDays_def remainingLife_def)

section \<open>Query cache: the lookup loop\<close>

lemma findBest_keeps:
  "fst (findBest cfg now q es i (Some j, bs)) \<noteq> None"
  by (induction es arbitrary: i j bs) (simp_all add: Let_def)

text \<open>
  An unexpired entry that scores at or above the threshold, and above the best score so far, makes
  the loop end with a match.
\<close>

lemma findBest_finds:
  assumes "e \<in> set es"
    and "\<not> now - timestamp e > ttlMs cfg"
    and "calculateSimilarity q (queryLower e) \<ge> similarityThreshold cfg"
    and "calculateSimilarity q (queryLower e) > bs"
  shows "fst (findBest cfg now q es i (bm, bs)) \<noteq> None"
  using assms
proof (induction es arbitrary: i bm bs)
  case Nil
  then show ?case by simp
next
  case (Cons a es)
  show ?case
  proof (cases "now - timestamp a > ttlMs cfg")
    case True
    with Cons.prems have "e \<in> set es" by auto
    with Cons.IH Cons.prems True show ?thesis by simp
  next
    case False
    show ?thesis
    proof (cases "calculateSimilarity q (queryLower a) \<ge> similarityThreshold cfg
                  \<and> calculateSimilarity q (queryLower a) > bs")
      case True
      with False show ?thesis by (simp add: findBest_keeps)
    next
      case nb: False
      with Cons.prems have "e \<noteq> a" by auto
      with Cons.prems have "e \<in> set es" by auto
      with Cons.IH Cons.prems False nb show ?thesis by (auto simp: Let_def)
    qed
  qed
qed

text \<open>Normalization and token sets of the two queries of scenario D.\<close>

lemma stored_query_normalized: "trim (toLowerCase ''What is my name?'') = ''what is my name?''"
  by (simp add: trim_def toLowerCase_def toLowerChar_def whitespace1_def whitespace2_def
        whitespace3_def)

lemma lookup_query_normalized: "trim (toLowerCase ''what is my name'') = ''what is my name''"
  by (simp add: trim_def toLowerCase_def toLowerChar_def whitespace1_def whitespace2_def
        whitespace3_def)

lemma stored_query_tokens: "tokenSet ''what is my name?'' = [''what'', ''is'', ''my'', ''name?'']"
  by (simp add: tokenSet_def splitWhitespace_def whitespace1_def whitespace2_def whitespace3_def)

lemma lookup_query_tokens: "tokenSet ''what is my name'' = [''what'', ''is'', ''my'', ''name'']"
  by (simp add: tokenSet_def splitWhitespace_def whitespace1_def whitespace2_def whitespace3_def)

lemma scenario_similarity: "calculateSimilarity ''what is my name'' ''what is my name?'' = 3/5"
  by (simp add: calculateSimilarity_def stored_query_tokens lookup_query_tokens)

section \<open>Query cache: claims\<close>

text \<open>
  C4, as the code has it. With \<open>similarityThreshold = 0.6\<close>, after a cache entry is stored for the
  query \<open>What is my name?\<close>, a lookup of \<open>what is my name\<close> for the same principal within the TTL is
  a cache hit, whatever the cache held before. Normalization (lowercase, trim) keeps the question
  mark, so the token sets are \<open>{what, is, my, name?}\<close> and \<open>{what, is, my, name}\<close>: they share 3 of
  5 tokens, and the Jaccard similarity is 3/5, exactly the threshold. (In IEEE doubles \<open>3 / 5\<close> and
  the literal \<open>0.6\<close> are the same number, so the comparison \<open>score >= 0.6\<close> holds there too.)
\<close>

theorem cache_similar_query_hits:
  assumes "similarityThreshold (cache_config c) = 6/10"
    and "t1 - t0 \<le> ttlMs (cache_config c)"
  shows "tokenSet (trim (toLowerCase ''What is my name?'')) = [''what'', ''is'', ''my'', ''name?'']
       \<and> tokenSet (trim (toLowerCase ''what is my name'')) = [''what'', ''is'', ''my'', ''name'']
       \<and> calculateSimilarity (trim (toLowerCase ''what is my name''))
                               (trim (toLowerCase ''What is my name?'')) = 3/5
       \<and> (\<exists>hit. fst (SemanticCache_get (SemanticCache_set c t0 userId ''What is my name?'' ctx)
                        t1 userId ''what is my name'') = Some hit
                \<and> fromCache hit)"
proof -
  let ?cfg = "cache_config c"
  let ?new = "\<lparr> query = ''What is my name?'', queryLower = ''what is my name?'',
                 cachedContext = ctx\<lparr>fromCache := False\<rparr>, timestamp = t0, hits = 0 \<rparr>"
  let ?c1 = "SemanticCache_set c t0 userId ''What is my name?'' ctx"
  obtain kept where stored: "cache ?c1 userId = Some (kept @ [?new])"
    by (simp add: SemanticCache_set_def Let_def stored_query_normalized)
  have cfg1: "cache_config ?c1 = ?cfg"
    by (simp add: SemanticCache_set_def Let_def)
  have "fst (findBest ?cfg t1 ''what is my name'' (kept @ [?new]) 0 (None, 0)) \<noteq> None"
  proof (rule findBest_finds [where e = ?new])
    show "?new \<in> set (kept @ [?new])" by simp
    show "\<not> t1 - timestamp ?new > ttlMs ?cfg" using assms(2) by simp
    show "calculateSimilarity ''what is my name'' (queryLower ?new) \<ge> similarityThreshold ?cfg"
      using assms(1) by (simp add: scenario_similarity)
    show "calculateSimilarity ''what is my name'' (queryLower ?new) > 0"
      by (simp add: scenario_similarity)
  qed
  then obtain i where
    best: "fst (findBest ?cfg t1 ''what is my name'' (kept @ [?new]) 0 (None, 0)) = Some i"
    by auto
  have hit: "\<exists>hit. fst (SemanticCache_get ?c1 t1 userId ''what is my name'') = Some hit \<and> fromCache hit"
    using stored cfg1 best
    by (simp add: SemanticCache_get_def Let_def lookup_query_normalized)
  show ?thesis
    using hit
    by (simp add: stored_query_normalized lookup_query_normalized stored_query_tokens
          lookup_query_tokens scenario_similarity)
qed

theorem cache_similar_query_hits_witness:
  "fst (SemanticCache_get
         (SemanticCache_set
            (SemanticCache_new \<lparr> maxSize_opt = None, ttlMs_opt = Some 60000,
                                 similarityThreshold_opt = Some (6/10) \<rparr>)
            1700000000000 ''user1'' ''What is my name?''
            \<lparr> compiledPrompt = ''User is John, lives in NYC'', facts = [], estimatedTokens = 10,
              fromCache = False \<rparr>)
         1700000000005 ''user1'' ''what is my name'')
   = Some \<lparr> compiledPrompt = ''User is John, lives in NYC'', facts = [], estimatedTokens = 10,
            fromCache = True \<rparr>"
proof -
  let ?c = "SemanticCache_new \<lparr> maxSize_opt = None, ttlMs_opt = Some 60000,
                                 similarityThreshold_opt = Some (6/10) \<rparr>"
  let ?ctx = "\<lparr> compiledPrompt = ''User is John, lives in NYC'', facts = [], estimatedTokens = 10,
              fromCache = False \<rparr>"
  have h1: "similarityThreshold (cache_config ?c) = 6/10"
    by (simp add: SemanticCache_new_def)
  have h2: "(1700000000005::int) - 1700000000000 \<le> ttlMs (cache_config ?c)"
    by (simp add: SemanticCache_new_def)
  from cache_similar_query_hits [OF h1 h2, of "''user1''" ?ctx]
  obtain hit where
    "fst (SemanticCache_get (SemanticCache_set ?c 1700000000000 ''user1'' ''What is my name?'' ?ctx)
            1700000000005 ''user1'' ''what is my name'') = Some hit"
    by blast
  moreover have
    "fst (SemanticCache_get (SemanticCache_set ?c 1700000000000 ''user1'' ''What is my name?'' ?ctx)
            1700000000005 ''user1'' ''what is my name'')
     \<in> {None, Some (?ctx\<lparr>fromCache := True\<rparr>)}"
    by (simp add: SemanticCache_get_def SemanticCache_set_def SemanticCache_new_def Let_def
          stored_query_normalized lookup_query_normalized scenario_similarity split: option.splits)
  ultimately show ?thesis by simp
qed

text \<open>
  C4 as stated fails where it gives the reason for the hit: the two token sets differ in their
  last token, and the similarity of the two normalized queries is 3/5, not 1.
\<close>

theorem cache_similarity_counterexample:
  "''name?'' \<in> set (tokenSet (trim (toLowerCase ''What is my name?'')))
   \<and> ''name?'' \<notin> set (tokenSet (trim (toLowerCase ''what is my name'')))
   \<and> calculateSimilarity (trim (toLowerCase ''what is my name''))
                           (trim (toLowerCase ''What is my name?'')) \<noteq> 1"
  by (simp add: stored_query_normalized lookup_query_normalized stored_query_tokens
        lookup_query_tokens scenario_similarity)

section \<open>Strings: whitespace\<close>

text \<open>
  The pieces of a string make up the string, the whitespace among them are the encodings listed,
  and \<open>trim\<close> returns a part of the string.
\<close>

lemma pieces_bytes: "concat (map bytes (pieces s)) = s"
  by (induction s rule: pieces.induct) simp_all

lemma pieces_Space:
  "Space w \<in> set (pieces s) \<Longrightarrow> w \<in> set whitespace1 \<union> set whitespace2 \<union> set whitespace3"
  by (induction s rule: pieces.induct) (auto split: if_splits)

lemma trim_part: "\<exists>lead trail. s = lead @ trim s @ trail"
proof -
  let ?ps = "pieces s"
  let ?a = "takeWhile isSpace ?ps"
  let ?r = "dropWhile isSpace ?ps"
  let ?m = "rev (dropWhile isSpace (rev ?r))"
  let ?z = "rev (takeWhile isSpace (rev ?r))"
  have "rev ?r = takeWhile isSpace (rev ?r) @ dropWhile isSpace (rev ?r)" by simp
  then have "?r = ?m @ ?z" by (metis rev_append rev_rev_ident)
  then have "?ps = ?a @ ?m @ ?z" by (metis takeWhile_dropWhile_id)
  then have "concat (map bytes ?ps) = concat (map bytes ?a) @ concat (map bytes ?m) @ concat (map bytes ?z)"
    by (metis concat_append map_append)
  then show ?thesis unfolding pieces_bytes trim_def by blast
qed

section \<open>Validation: the loop\<close>









section \<open>Validation: claims\<close>



section \<open>Tiered store: the in-memory hot store under demotion\<close>

lemma Map_set_fresh: "k \<notin> fst ` set m \<Longrightarrow> Map_set k v m = m @ [(k, v)]"
  by (induction m) auto

lemma removeFromHot_InMemory:
  "removeFromHot InMemoryAdapter userId fs hs =
     hs(userId := filter (\<lambda>p. fst p \<notin> fid ` set fs) (hs userId))"
proof (induction fs arbitrary: hs)
  case Nil
  show ?case by simp
next
  case (Cons f fs)
  have "snd (hardDeleteFact InMemoryAdapter hs userId (fid f))
          = hs(userId := Map_delete (fid f) (hs userId))"
    by (simp add: InMemoryAdapter_def InMemoryAdapter_hardDeleteFact_def)
  then show ?case
    by (simp add: Cons.IH Map_delete_def conj_commute fun_eq_iff)
qed

text \<open>What \<open>demoteOldFacts\<close> does to an in-memory hot store, in closed form.\<close>

lemma demoteOldFacts_InMemory:
  assumes "hot t = InMemoryAdapter"
  shows "demoteOldFacts t hs userId =
     (Inr (),
      let valid = filter (\<lambda>f. invalidatedAt f = None) (Map_values (hs userId)) in
      if length valid > hotFactLimit (tier_config t)
      then hs(userId := filter (\<lambda>p. fst p \<notin> fid ` set (take (length valid - hotFactLimit (tier_config t))
                                                              (sort_key updatedAt valid)))
                               (hs userId))
      else hs)"
  using assms
  by (simp add: demoteOldFacts_def InMemoryAdapter_def InMemoryAdapter_getFacts_def validOnlyFilter_def
        Let_def removeFromHot_InMemory [unfolded InMemoryAdapter_def])

lemma length_filter_not_in:
  assumes "distinct xs" "distinct ys" "set ys \<subseteq> set xs"
  shows "length (filter (\<lambda>x. x \<notin> set ys) xs) = length xs - length ys"
proof -
  have "length (filter (\<lambda>x. x \<notin> set ys) xs) = card ({x. x \<notin> set ys} \<inter> set xs)"
    using assms(1) by (rule distinct_length_filter)
  also have "{x. x \<notin> set ys} \<inter> set xs = set xs - set ys" by auto
  also have "card (set xs - set ys) = card (set xs) - card (set ys)"
    using assms(3) by (simp add: card_Diff_subset)
  finally show ?thesis
    using assms(1,2) by (simp add: distinct_card)
qed

lemma keyedById_facts:
  assumes "keyedById H"
  shows "distinct (map snd H)" and "inj_on fid (set (map snd H))"
proof -
  from assms have d: "distinct (map fst H)" and k: "\<forall>p \<in> set H. fid (snd p) = fst p"
    by (auto simp: keyedById_def)
  have eq: "map fst H = map fid (map snd H)"
    using k by simp
  with d have dm: "distinct (map fid (map snd H))" by simp
  then show "distinct (map snd H)" by (simp only: distinct_map)
  from dm show "inj_on fid (set (map snd H))" by (simp only: distinct_map)
qed

text \<open>
  Removing, from a store keyed by its ids, the ids of the \<open>m\<close> least recently updated valid facts:
  the store stays keyed by its ids, exactly \<open>m\<close> valid facts go, nothing else does, and no fact that
  goes was updated later than a valid fact that stays.
\<close>

lemma evict_oldest:
  fixes H :: FactMap and m :: nat
  defines "valid \<equiv> filter (\<lambda>f. invalidatedAt f = None) (Map_values H)"
  defines "gone \<equiv> take m (sort_key updatedAt valid)"
  defines "H' \<equiv> filter (\<lambda>p. fst p \<notin> fid ` set gone) H"
  assumes keyed: "keyedById H" and m: "m \<le> length valid"
  shows "keyedById H'"
    and "set H' \<subseteq> set H"
    and "map snd H' = filter (\<lambda>f. f \<notin> set gone) (map snd H)"
    and "length (filter (\<lambda>f. invalidatedAt f = None) (Map_values H')) = length valid - m"
    and "\<forall>p \<in> set H - set H'. invalidatedAt (snd p) = None"
    and "\<forall>p \<in> set H - set H'. \<forall>q \<in> set H'. invalidatedAt (snd q) = None
            \<longrightarrow> updatedAt (snd p) \<le> updatedAt (snd q)"
proof -
  from keyed have d: "distinct (map fst H)" and k: "\<forall>p \<in> set H. fid (snd p) = fst p"
    by (auto simp: keyedById_def)
  note facts = keyedById_facts [OF keyed]
  have gone_valid: "set gone \<subseteq> set valid"
    unfolding gone_def by (metis set_sort set_take_subset)
  have valid_H: "set valid \<subseteq> set (map snd H)"
    unfolding valid_def Map_values_def by auto
  have mem: "fst p \<in> fid ` set gone \<longleftrightarrow> snd p \<in> set gone" if "p \<in> set H" for p
  proof
    assume "fst p \<in> fid ` set gone"
    then obtain g where g: "g \<in> set gone" "fid g = fst p" by auto
    with k that have e: "fid g = fid (snd p)" by simp
    from g gone_valid valid_H have gH: "g \<in> set (map snd H)" by blast
    from that have pH: "snd p \<in> set (map snd H)" by simp
    from facts(2) e gH pH have "g = snd p" by (rule inj_onD)
    with g show "snd p \<in> set gone" by simp
  next
    assume "snd p \<in> set gone"
    with k that show "fst p \<in> fid ` set gone" by force
  qed
  have H'_eq: "H' = filter (\<lambda>p. snd p \<notin> set gone) H"
    unfolding H'_def using mem by (intro filter_cong) auto
  show sub: "set H' \<subseteq> set H" unfolding H'_def by auto
  show "keyedById H'"
    unfolding keyedById_def H'_def using d k by (simp add: distinct_map_filter)
  show snd_eq: "map snd H' = filter (\<lambda>f. f \<notin> set gone) (map snd H)"
    unfolding H'_eq by (simp add: filter_map comp_def)
  have dv: "distinct valid"
    unfolding valid_def Map_values_def using facts(1) by simp
  have dg: "distinct gone"
    unfolding gone_def using dv by simp
  have lg: "length gone = m"
    unfolding gone_def using m by simp
  have "filter (\<lambda>f. invalidatedAt f = None) (Map_values H') = filter (\<lambda>f. f \<notin> set gone) valid"
    unfolding Map_values_def snd_eq valid_def by (simp add: conj_commute)
  then show "length (filter (\<lambda>f. invalidatedAt f = None) (Map_values H')) = length valid - m"
    using length_filter_not_in [OF dv dg gone_valid] lg by simp
  have removed: "snd p \<in> set gone" if "p \<in> set H - set H'" for p
    using that unfolding H'_eq by auto
  show "\<forall>p \<in> set H - set H'. invalidatedAt (snd p) = None"
    using removed gone_valid unfolding valid_def by auto
  show "\<forall>p \<in> set H - set H'. \<forall>q \<in> set H'. invalidatedAt (snd q) = None
            \<longrightarrow> updatedAt (snd p) \<le> updatedAt (snd q)"
  proof (intro ballI impI)
    fix p q
    assume p: "p \<in> set H - set H'" and q: "q \<in> set H'" and qv: "invalidatedAt (snd q) = None"
    let ?s = "sort_key updatedAt valid"
    from removed [OF p] have pg: "snd p \<in> set (take m ?s)" by (simp add: gone_def)
    from q have "q \<in> set H" "snd q \<notin> set gone" unfolding H'_eq by auto
    with qv have "snd q \<in> set valid" unfolding valid_def Map_values_def by auto
    then have "snd q \<in> set ?s" by simp
    moreover have "set ?s = set (take m ?s) \<union> set (drop m ?s)"
      by (metis append_take_drop_id set_append)
    ultimately have qd: "snd q \<in> set (drop m ?s)"
      using \<open>snd q \<notin> set gone\<close> unfolding gone_def by blast
    have "sorted (map updatedAt (take m ?s @ drop m ?s))" by (simp add: sorted_sort_key)
    then have "\<forall>x \<in> set (map updatedAt (take m ?s)). \<forall>y \<in> set (map updatedAt (drop m ?s)). x \<le> y"
      by (simp only: map_append sorted_append) blast
    with pg qd show "updatedAt (snd p) \<le> updatedAt (snd q)" by auto
  qed
qed

text \<open>
  Demotion on an in-memory hot store that is keyed by its ids: it succeeds, removes only valid
  facts of this user, brings the number of valid facts down to the limit, and removes no fact that
  was updated later than a valid fact it keeps.
\<close>

lemma demoteOldFacts_keeps_newest:
  assumes hot: "hot t = InMemoryAdapter" and keyed: "keyedById (hs userId)"
  shows "\<exists>hs'. demoteOldFacts t hs userId = (Inr (), hs')
      \<and> keyedById (hs' userId)
      \<and> set (hs' userId) \<subseteq> set (hs userId)
      \<and> length (filter (\<lambda>f. invalidatedAt f = None) (Map_values (hs' userId)))
          = min (length (filter (\<lambda>f. invalidatedAt f = None) (Map_values (hs userId))))
                (hotFactLimit (tier_config t))
      \<and> (\<forall>p \<in> set (hs userId) - set (hs' userId).
            invalidatedAt (snd p) = None
          \<and> (\<forall>q \<in> set (hs' userId). invalidatedAt (snd q) = None
                \<longrightarrow> updatedAt (snd p) \<le> updatedAt (snd q)))
      \<and> (\<forall>other. other \<noteq> userId \<longrightarrow> hs' other = hs other)"
proof -
  let ?L = "hotFactLimit (tier_config t)"
  let ?valid = "filter (\<lambda>f. invalidatedAt f = None) (Map_values (hs userId))"
  show ?thesis
  proof (cases "length ?valid > ?L")
    case False
    then have "demoteOldFacts t hs userId = (Inr (), hs)"
      by (simp add: demoteOldFacts_InMemory [OF hot] Let_def)
    with False keyed show ?thesis by simp
  next
    case True
    let ?m = "length ?valid - ?L"
    let ?H' = "filter (\<lambda>p. fst p \<notin> fid ` set (take ?m (sort_key updatedAt ?valid))) (hs userId)"
    have m: "?m \<le> length ?valid" by simp
    note ev = evict_oldest [OF keyed m]
    have res: "demoteOldFacts t hs userId = (Inr (), hs(userId := ?H'))"
      using True by (simp add: demoteOldFacts_InMemory [OF hot] Let_def)
    have count: "length (filter (\<lambda>f. invalidatedAt f = None) (Map_values ?H')) = min (length ?valid) ?L"
      using ev(4) True by simp
    from res ev(1) ev(2) count ev(5) ev(6) show ?thesis by simp
  qed
qed

section \<open>Tiered store: writing new (subject, predicate) pairs\<close>

lemma find_none_new_key:
  assumes "\<forall>p \<in> set m. (subject (snd p), predicate (snd p)) \<in> K" and "(s, pr) \<notin> K"
  shows "find (\<lambda>f. subject f = s \<and> predicate f = pr \<and> invalidatedAt f = None) (Map_values m) = None"
  using assms by (auto simp: find_None_iff Map_values_def)

lemma InMemory_upsert_new_key:
  assumes "\<forall>p \<in> set (st userId). (subject (snd p), predicate (snd p)) \<in> K \<and> fst p \<in> U"
    and "(in_subject fa, in_predicate fa) \<notin> K" and "env_uuid env \<notin> U"
  shows "InMemoryAdapter_upsertFact st env userId fa =
     (Inr (newFactOf fa (env_uuid env) (env_now env)),
      st(userId := st userId @ [(env_uuid env, newFactOf fa (env_uuid env) (env_now env))]))"
proof -
  have none: "find (\<lambda>f. subject f = in_subject fa \<and> predicate f = in_predicate fa \<and> invalidatedAt f = None)
                (Map_values (st userId)) = None"
    using assms(1,2) by (intro find_none_new_key [where K = K]) auto
  have fresh: "env_uuid env \<notin> fst ` set (st userId)"
    using assms(1,3) by auto
  show ?thesis
    by (simp add: InMemoryAdapter_upsertFact_def none Let_def newFactOf_def Map_set_fresh [OF fresh])
qed

text \<open>One call of \<open>upsertFact\<close> on the tiered store, for a pair not written before.\<close>

lemma tiered_upsert_new_key:
  assumes hot: "hot t = InMemoryAdapter" and cold: "cold t = InMemoryAdapter"
    and demote: "autoDemote (tier_config t)" and limit: "hotFactLimit (tier_config t) = L"
    and inv: "tiersFilled K Uh Uc L (hs userId) (cs userId)"
    and key: "keyOf call \<notin> K" and idc: "coldId call \<notin> Uc" and idh: "hotId call \<notin> Uh"
    and valid: "in_invalidatedAt (snd (snd call)) = None"
  shows "\<exists>saved hs' cs'.
           TieredAdapter_upsertFact t (hs, cs) (fst call) (fst (snd call)) userId (snd (snd call))
             = (Inr saved, (hs', cs'))
         \<and> tiersFilled (insert (keyOf call) K) (insert (hotId call) Uh) (insert (coldId call) Uc) L
              (hs' userId) (cs' userId)
         \<and> length (cs' userId) = Suc (length (cs userId))
         \<and> length (hs' userId) = min (Suc (length (hs userId))) L"
proof -
  let ?ec = "fst call" and ?eh = "fst (snd call)" and ?fa = "snd (snd call)"
  let ?saved = "newFactOf ?fa (env_uuid ?ec) (env_now ?ec)"
  let ?written = "newFactOf (asInput ?saved) (env_uuid ?eh) (env_now ?eh)"
  let ?C1 = "cs userId @ [(env_uuid ?ec, ?saved)]"
  let ?H1 = "hs userId @ [(env_uuid ?eh, ?written)]"
  let ?hs1 = "hs(userId := ?H1)"
  from inv have keyedH: "keyedById (hs userId)" and lenH: "length (hs userId) \<le> L"
    and H: "\<forall>p \<in> set (hs userId). invalidatedAt (snd p) = None
              \<and> (subject (snd p), predicate (snd p)) \<in> K \<and> fst p \<in> Uh"
    and distC: "distinct (map fst (cs userId))"
    and C: "\<forall>p \<in> set (cs userId). (subject (snd p), predicate (snd p)) \<in> K \<and> fst p \<in> Uc"
    by (auto simp: tiersFilled_def)
  have coldw: "upsertFact (cold t) cs ?ec userId ?fa = (Inr ?saved, cs(userId := ?C1))"
    unfolding cold using C key idc
    by (simp add: InMemoryAdapter_def InMemory_upsert_new_key [where K = K and U = Uc]
          keyOf_def coldId_def)
  have hotw: "upsertFact (hot t) hs ?eh userId (asInput ?saved) = (Inr ?written, ?hs1)"
    unfolding hot using H key idh
    by (simp add: InMemoryAdapter_def InMemory_upsert_new_key [where K = K and U = Uh]
          keyOf_def hotId_def asInput_def newFactOf_def)
  have wv: "invalidatedAt ?written = None" and wid: "fid ?written = env_uuid ?eh"
    and wkey: "(subject ?written, predicate ?written) = keyOf call"
    using valid by (simp_all add: newFactOf_def asInput_def keyOf_def)
  have skey: "(subject ?saved, predicate ?saved) = keyOf call"
    by (simp add: newFactOf_def keyOf_def)
  have freshH: "env_uuid ?eh \<notin> fst ` set (hs userId)"
    using H idh by (auto simp: hotId_def)
  have keyedH1: "keyedById ?H1"
    using keyedH freshH wid by (auto simp: keyedById_def)
  have allvalid1: "\<forall>p \<in> set ?H1. invalidatedAt (snd p) = None"
    using H wv by auto
  then have valid1: "filter (\<lambda>f. invalidatedAt f = None) (Map_values ?H1) = Map_values ?H1"
    by (auto simp: Map_values_def)
  from demoteOldFacts_keeps_newest [where hs = ?hs1 and userId = userId, OF hot] keyedH1
  obtain hs' where dem: "demoteOldFacts t ?hs1 userId = (Inr (), hs')"
    and keyed': "keyedById (hs' userId)"
    and sub: "set (hs' userId) \<subseteq> set ?H1"
    and cnt: "length (filter (\<lambda>f. invalidatedAt f = None) (Map_values (hs' userId)))
          = min (length (filter (\<lambda>f. invalidatedAt f = None) (Map_values ?H1))) L"
    unfolding limit by auto
  have allvalid': "\<forall>p \<in> set (hs' userId). invalidatedAt (snd p) = None"
    using sub allvalid1 by blast
  then have valid': "filter (\<lambda>f. invalidatedAt f = None) (Map_values (hs' userId)) = Map_values (hs' userId)"
    by (auto simp: Map_values_def)
  from cnt have "length (Map_values (hs' userId)) = min (length (Map_values ?H1)) L"
    by (simp only: valid1 valid')
  then have lenH': "length (hs' userId) = min (Suc (length (hs userId))) L"
    by (simp add: Map_values_def)
  have result: "TieredAdapter_upsertFact t (hs, cs) ?ec ?eh userId ?fa
      = (Inr ?saved, (hs', cs(userId := ?C1)))"
    by (simp add: TieredAdapter_upsertFact_def coldw hotw demote dem)
  have H': "\<forall>p \<in> set (hs' userId). invalidatedAt (snd p) = None
              \<and> (subject (snd p), predicate (snd p)) \<in> insert (keyOf call) K
              \<and> fst p \<in> insert (hotId call) Uh"
  proof
    fix p assume "p \<in> set (hs' userId)"
    with sub have "p \<in> set (hs userId) \<or> p = (env_uuid ?eh, ?written)" by auto
    then show "invalidatedAt (snd p) = None
              \<and> (subject (snd p), predicate (snd p)) \<in> insert (keyOf call) K
              \<and> fst p \<in> insert (hotId call) Uh"
      using H wv wkey by (auto simp: hotId_def)
  qed
  have freshC: "env_uuid ?ec \<notin> fst ` set (cs userId)"
    using C idc by (auto simp: coldId_def)
  have distC1: "distinct (map fst ?C1)"
    using distC freshC by simp
  have C1: "\<forall>p \<in> set ?C1. (subject (snd p), predicate (snd p)) \<in> insert (keyOf call) K
              \<and> fst p \<in> insert (coldId call) Uc"
    using C skey by (auto simp: coldId_def)
  have inv': "tiersFilled (insert (keyOf call) K) (insert (hotId call) Uh) (insert (coldId call) Uc) L
              (hs' userId) ((cs(userId := ?C1)) userId)"
    unfolding tiersFilled_def using keyed' lenH' H' distC1 C1 by simp
  from result inv' lenH' show ?thesis by simp
qed

lemma fresh_for_rest:
  "x \<notin> f ` set ys \<Longrightarrow> \<forall>y \<in> set ys. f y \<notin> A \<Longrightarrow> \<forall>y \<in> set ys. f y \<notin> insert x A"
  by blast

text \<open>A sequence of such calls.\<close>

lemma upsertEach_new_keys:
  assumes hot: "hot t = InMemoryAdapter" and cold: "cold t = InMemoryAdapter"
    and demote: "autoDemote (tier_config t)" and limit: "hotFactLimit (tier_config t) = L"
  shows "tiersFilled K Uh Uc L (hs userId) (cs userId) \<Longrightarrow>
         distinct (map keyOf calls) \<Longrightarrow> \<forall>c \<in> set calls. keyOf c \<notin> K \<Longrightarrow>
         distinct (map coldId calls) \<Longrightarrow> \<forall>c \<in> set calls. coldId c \<notin> Uc \<Longrightarrow>
         distinct (map hotId calls) \<Longrightarrow> \<forall>c \<in> set calls. hotId c \<notin> Uh \<Longrightarrow>
         \<forall>c \<in> set calls. in_invalidatedAt (snd (snd c)) = None \<Longrightarrow>
         \<exists>rs hs' cs'. upsertEach t userId calls (hs, cs) = (rs, (hs', cs'))
            \<and> (\<forall>r \<in> set rs. \<exists>saved. r = Inr saved)
            \<and> length (cs' userId) = length (cs userId) + length calls
            \<and> length (hs' userId) = min (length (hs userId) + length calls) L"
proof (induction calls arbitrary: hs cs K Uh Uc)
  case Nil
  then show ?case by (simp add: tiersFilled_def)
next
  case (Cons call calls)
  obtain ec eh fa where call: "call = (ec, eh, fa)" by (cases call) auto
  from Cons.prems have key: "keyOf call \<notin> K" and idc: "coldId call \<notin> Uc" and idh: "hotId call \<notin> Uh"
    and valid: "in_invalidatedAt (snd (snd call)) = None" by simp_all
  from tiered_upsert_new_key [where hs = hs and cs = cs and userId = userId,
         OF hot cold demote limit Cons.prems(1) key idc idh valid]
  obtain saved hs1 cs1 where
    step: "TieredAdapter_upsertFact t (hs, cs) ec eh userId fa = (Inr saved, (hs1, cs1))"
    and inv1: "tiersFilled (insert (keyOf call) K) (insert (hotId call) Uh) (insert (coldId call) Uc) L
              (hs1 userId) (cs1 userId)"
    and lc: "length (cs1 userId) = Suc (length (cs userId))"
    and lh: "length (hs1 userId) = min (Suc (length (hs userId))) L"
    unfolding call by auto
  from Cons.prems have d: "distinct (map keyOf calls)" "distinct (map coldId calls)"
      "distinct (map hotId calls)" "\<forall>c \<in> set calls. in_invalidatedAt (snd (snd c)) = None"
    by simp_all
  from Cons.prems(2) Cons.prems(3)
  have k: "\<forall>c \<in> set calls. keyOf c \<notin> insert (keyOf call) K"
    by (intro fresh_for_rest) simp_all
  from Cons.prems(4) Cons.prems(5)
  have c: "\<forall>c \<in> set calls. coldId c \<notin> insert (coldId call) Uc"
    by (intro fresh_for_rest) simp_all
  from Cons.prems(6) Cons.prems(7)
  have h: "\<forall>c \<in> set calls. hotId c \<notin> insert (hotId call) Uh"
    by (intro fresh_for_rest) simp_all
  have "\<exists>rs hs' cs'. upsertEach t userId calls (hs1, cs1) = (rs, (hs', cs'))
            \<and> (\<forall>r \<in> set rs. \<exists>saved. r = Inr saved)
            \<and> length (cs' userId) = length (cs1 userId) + length calls
            \<and> length (hs' userId) = min (length (hs1 userId) + length calls) L"
    by (rule Cons.IH [where hs = hs1 and cs = cs1, OF inv1 d(1) k d(2) c d(3) h d(4)])
  then obtain rs hs' cs' where rest: "upsertEach t userId calls (hs1, cs1) = (rs, (hs', cs'))"
    and ok: "\<forall>r \<in> set rs. \<exists>saved. r = Inr saved"
    and lc': "length (cs' userId) = length (cs1 userId) + length calls"
    and lh': "length (hs' userId) = min (length (hs1 userId) + length calls) L"
    by blast
  have run: "upsertEach t userId (call # calls) (hs, cs) = (Inr saved # rs, (hs', cs'))"
    by (simp add: call step rest)
  have "min (min (Suc (length (hs userId))) L + length calls) L
          = min (length (hs userId) + length (call # calls)) L"
    by (simp add: min_def)
  with run ok lc lc' lh lh' show ?case by simp
qed

text \<open>
  The run of the auto-demotion test of tests/tiered.test.ts: the sixth call evicts \<open>FACT_0\<close>, the
  least recently updated fact, from the hot store, and the cold store keeps all six.
\<close>

lemma test_run_evicts_oldest:
  "map predicate (Map_values (fst (snd (upsertEach
        (TieredAdapter_new InMemoryAdapter InMemoryAdapter testConfig) ''user1'' testCalls
        (InMemory_empty, InMemory_empty))) ''user1''))
     = [''FACT_1'', ''FACT_2'', ''FACT_3'', ''FACT_4'', ''FACT_5'']
   \<and> map predicate (Map_values (snd (snd (upsertEach
        (TieredAdapter_new InMemoryAdapter InMemoryAdapter testConfig) ''user1'' testCalls
        (InMemory_empty, InMemory_empty))) ''user1''))
     = [''FACT_0'', ''FACT_1'', ''FACT_2'', ''FACT_3'', ''FACT_4'', ''FACT_5'']"
  by (simp add: TieredAdapter_new_def TieredAdapter_upsertFact_def demoteOldFacts_def
        InMemoryAdapter_def InMemoryAdapter_upsertFact_def InMemoryAdapter_getFacts_def
        InMemoryAdapter_hardDeleteFact_def InMemory_empty_def Map_values_def Map_delete_def
        newFactOf_def spreadOver_def asInput_def testCalls_def testCall_def testFact_def
        testConfig_def validOnlyFilter_def Let_def)

text \<open>
  Scenario C. With \<open>hotFactLimit = 5\<close> and demotion on, over two in-memory stores that start
  empty: six calls of \<open>upsertFact\<close> for one principal, with six different (subject, predicate)
  pairs (\<open>keyOf\<close>), \<open>invalidatedAt: null\<close>, and ids that do not repeat within a store (\<open>coldId\<close>,
  \<open>hotId\<close>), all succeed and leave exactly 5 facts in the hot store and exactly 6 in the cold
  store. The cold store is left as the cold write left it: demotion never touches it. On a hot
  store keyed by its fact ids, as inserts alone keep it, demotion removes valid facts only,
  leaves no more valid facts than the limit, and removes no fact that was updated later than a
  valid fact it keeps.
\<close>

lemma six_new_facts_fill_tiers:
  assumes t: "t = TieredAdapter_new InMemoryAdapter InMemoryAdapter cfg"
    and lim: "hotFactLimit_opt cfg = Some 5"
    and dem: "autoDemote_opt cfg \<noteq> Some False"
    and n: "length calls = 6"
    and keys: "distinct (map keyOf calls)"
    and idc: "distinct (map coldId calls)"
    and idh: "distinct (map hotId calls)"
    and valid: "\<forall>c \<in> set calls. in_invalidatedAt (snd (snd c)) = None"
  shows "(\<exists>rs hs cs hotFacts coldFacts.
            upsertEach t userId calls (InMemory_empty, InMemory_empty) = (rs, (hs, cs))
          \<and> (\<forall>r \<in> set rs. \<exists>saved. r = Inr saved)
          \<and> getFacts (hot t) hs userId None = Inr hotFacts \<and> length hotFacts = 5
          \<and> getFacts (cold t) cs userId None = Inr coldFacts \<and> length coldFacts = 6)
       \<and> (\<forall>st envCold envHot fa.
            snd (snd (TieredAdapter_upsertFact t st envCold envHot userId fa))
              = snd (upsertFact (cold t) (snd st) envCold userId fa))
       \<and> (\<forall>hs. keyedById (hs userId) \<longrightarrow>
            (\<exists>hs'. demoteOldFacts t hs userId = (Inr (), hs')
               \<and> set (hs' userId) \<subseteq> set (hs userId)
               \<and> length (filter (\<lambda>f. invalidatedAt f = None) (Map_values (hs' userId)))
                   = min (length (filter (\<lambda>f. invalidatedAt f = None) (Map_values (hs userId)))) 5
               \<and> (\<forall>p \<in> set (hs userId) - set (hs' userId).
                     invalidatedAt (snd p) = None
                   \<and> (\<forall>q \<in> set (hs' userId). invalidatedAt (snd q) = None
                         \<longrightarrow> updatedAt (snd p) \<le> updatedAt (snd q)))))"
proof -
  have hot: "hot t = InMemoryAdapter" and cold: "cold t = InMemoryAdapter"
    by (simp_all add: t TieredAdapter_new_def)
  have limit: "hotFactLimit (tier_config t) = 5"
    by (simp add: t TieredAdapter_new_def lim)
  have demote: "autoDemote (tier_config t)"
    using dem by (cases "autoDemote_opt cfg") (simp_all add: t TieredAdapter_new_def)
  have start: "tiersFilled {} {} {} 5 (InMemory_empty userId) (InMemory_empty userId)"
    by (simp add: tiersFilled_def keyedById_def InMemory_empty_def)
  from upsertEach_new_keys [where hs = InMemory_empty and cs = InMemory_empty and userId = userId,
         OF hot cold demote limit start keys _ idc _ idh _ valid]
  obtain rs hs cs where run: "upsertEach t userId calls (InMemory_empty, InMemory_empty) = (rs, (hs, cs))"
    and ok: "\<forall>r \<in> set rs. \<exists>saved. r = Inr saved"
    and lc: "length (cs userId) = length (InMemory_empty userId) + length calls"
    and lh: "length (hs userId) = min (length (InMemory_empty userId) + length calls) 5"
    by auto
  have hf: "getFacts (hot t) hs userId None = Inr (Map_values (hs userId))"
    by (simp add: hot InMemoryAdapter_def InMemoryAdapter_getFacts_def)
  have cf: "getFacts (cold t) cs userId None = Inr (Map_values (cs userId))"
    by (simp add: cold InMemoryAdapter_def InMemoryAdapter_getFacts_def)
  have scenario: "\<exists>rs hs cs hotFacts coldFacts.
            upsertEach t userId calls (InMemory_empty, InMemory_empty) = (rs, (hs, cs))
          \<and> (\<forall>r \<in> set rs. \<exists>saved. r = Inr saved)
          \<and> getFacts (hot t) hs userId None = Inr hotFacts \<and> length hotFacts = 5
          \<and> getFacts (cold t) cs userId None = Inr coldFacts \<and> length coldFacts = 6"
    using run ok hf cf lc lh n by (simp add: Map_values_def InMemory_empty_def)
  have untouched: "\<forall>st envCold envHot fa.
            snd (snd (TieredAdapter_upsertFact t st envCold envHot userId fa))
              = snd (upsertFact (cold t) (snd st) envCold userId fa)"
    by (simp add: TieredAdapter_upsertFact_def split: prod.splits sum.splits)
  have demotion: "\<forall>hs. keyedById (hs userId) \<longrightarrow>
            (\<exists>hs'. demoteOldFacts t hs userId = (Inr (), hs')
               \<and> set (hs' userId) \<subseteq> set (hs userId)
               \<and> length (filter (\<lambda>f. invalidatedAt f = None) (Map_values (hs' userId)))
                   = min (length (filter (\<lambda>f. invalidatedAt f = None) (Map_values (hs userId)))) 5
               \<and> (\<forall>p \<in> set (hs userId) - set (hs' userId).
                     invalidatedAt (snd p) = None
                   \<and> (\<forall>q \<in> set (hs' userId). invalidatedAt (snd q) = None
                         \<longrightarrow> updatedAt (snd p) \<le> updatedAt (snd q))))"
  proof (intro allI impI)
    fix hs :: InMemoryState
    assume k: "keyedById (hs userId)"
    from demoteOldFacts_keeps_newest [where hs = hs and userId = userId, OF hot k]
    show "\<exists>hs'. demoteOldFacts t hs userId = (Inr (), hs')
               \<and> set (hs' userId) \<subseteq> set (hs userId)
               \<and> length (filter (\<lambda>f. invalidatedAt f = None) (Map_values (hs' userId)))
                   = min (length (filter (\<lambda>f. invalidatedAt f = None) (Map_values (hs userId)))) 5
               \<and> (\<forall>p \<in> set (hs userId) - set (hs' userId).
                     invalidatedAt (snd p) = None
                   \<and> (\<forall>q \<in> set (hs' userId). invalidatedAt (snd q) = None
                         \<longrightarrow> updatedAt (snd p) \<le> updatedAt (snd q)))"
      unfolding limit by blast
  qed
  from scenario untouched demotion show ?thesis by blast
qed

section \<open>Tiered store: claims\<close>

text \<open>
  C5 fails in its last part: demotion does not always bring the hot store back within the
  limit. \<open>upsertFact\<close> hands the fact saved by the cold store, with the cold store's id, to the
  hot store. When the hot store already holds a valid fact of that subject and predicate, it
  overwrites it under the old key with the properties of the saved fact, its id among them;
  \<open>demoteOldFacts\<close> then calls \<open>hardDeleteFact\<close> with that id, which is no key of the hot store,
  and removes nothing. With \<open>hotFactLimit = 5\<close>, after \<open>NAME\<close> is written twice and five other
  facts once, all seven calls have succeeded and the hot store holds six valid facts, the first
  of them under the key 200 with the id 100.
\<close>

theorem demotion_leaves_hot_over_limit:
  "map (\<lambda>r. case r of Inl e \<Rightarrow> None | Inr saved \<Rightarrow> Some (fid saved, object saved))
     (fst (upsertEach
        (TieredAdapter_new InMemoryAdapter InMemoryAdapter
           \<lparr> hotFactLimit_opt = Some 5, hotConversationLimit_opt = None, autoPromote_opt = None,
             autoDemote_opt = None \<rparr>)
        ''user1''
        [testCall 0 ''NAME'' ''John'', testCall 1 ''NAME'' ''Johnny'',
         testCall 2 ''FACT_2'' ''Value 2'', testCall 3 ''FACT_3'' ''Value 3'',
         testCall 4 ''FACT_4'' ''Value 4'', testCall 5 ''FACT_5'' ''Value 5'',
         testCall 6 ''FACT_6'' ''Value 6'']
        (InMemory_empty, InMemory_empty)))
   = [Some (100, ''John''), Some (100, ''Johnny''), Some (102, ''Value 2''), Some (103, ''Value 3''),
      Some (104, ''Value 4''), Some (105, ''Value 5''), Some (106, ''Value 6'')]
   \<and> map (\<lambda>p. (fst p, fid (snd p), predicate (snd p), updatedAt (snd p), invalidatedAt (snd p)))
     (fst (snd (upsertEach
        (TieredAdapter_new InMemoryAdapter InMemoryAdapter
           \<lparr> hotFactLimit_opt = Some 5, hotConversationLimit_opt = None, autoPromote_opt = None,
             autoDemote_opt = None \<rparr>)
        ''user1''
        [testCall 0 ''NAME'' ''John'', testCall 1 ''NAME'' ''Johnny'',
         testCall 2 ''FACT_2'' ''Value 2'', testCall 3 ''FACT_3'' ''Value 3'',
         testCall 4 ''FACT_4'' ''Value 4'', testCall 5 ''FACT_5'' ''Value 5'',
         testCall 6 ''FACT_6'' ''Value 6'']
        (InMemory_empty, InMemory_empty))) ''user1'')
   = [(200, 100, ''NAME'', 1700000000001, None), (202, 202, ''FACT_2'', 1700000000002, None),
      (203, 203, ''FACT_3'', 1700000000003, None), (204, 204, ''FACT_4'', 1700000000004, None),
      (205, 205, ''FACT_5'', 1700000000005, None), (206, 206, ''FACT_6'', 1700000000006, None)]
   \<and> (case getFacts InMemoryAdapter
        (fst (snd (upsertEach
          (TieredAdapter_new InMemoryAdapter InMemoryAdapter
             \<lparr> hotFactLimit_opt = Some 5, hotConversationLimit_opt = None, autoPromote_opt = None,
               autoDemote_opt = None \<rparr>)
          ''user1''
          [testCall 0 ''NAME'' ''John'', testCall 1 ''NAME'' ''Johnny'',
           testCall 2 ''FACT_2'' ''Value 2'', testCall 3 ''FACT_3'' ''Value 3'',
           testCall 4 ''FACT_4'' ''Value 4'', testCall 5 ''FACT_5'' ''Value 5'',
           testCall 6 ''FACT_6'' ''Value 6'']
          (InMemory_empty, InMemory_empty))))
        ''user1'' (Some validOnlyFilter) of
         Inl e \<Rightarrow> None | Inr hotFacts \<Rightarrow> Some (length hotFacts)) = Some 6"
  by (simp add: TieredAdapter_new_def TieredAdapter_upsertFact_def demoteOldFacts_def
        InMemoryAdapter_def InMemoryAdapter_upsertFact_def InMemoryAdapter_getFacts_def
        InMemoryAdapter_hardDeleteFact_def InMemory_empty_def Map_values_def Map_delete_def
        newFactOf_def spreadOver_def spreadProperty_def asInput_def testCall_def testFact_def
        validOnlyFilter_def Let_def)

text \<open>
  Sibling paths of the write below: a cold failure fails each of the three writes, and
  \<open>updateFact\<close> and \<open>deleteFact\<close> return the cold result whatever the hot store does.
\<close>

lemma tiered_cold_failure_is_fatal:
  "fst (upsertFact (cold t) (snd st) envCold userId fa) = Inl e
     \<Longrightarrow> fst (TieredAdapter_upsertFact t st envCold envHot userId fa) = Inl e"
  "fst (updateFact (cold t) (snd st) envCold userId factId updates) = Inl e
     \<Longrightarrow> fst (TieredAdapter_updateFact t st envCold envHot userId factId updates) = Inl e"
  "fst (deleteFact (cold t) (snd st) envCold userId factId reason) = Inl e
     \<Longrightarrow> fst (TieredAdapter_deleteFact t st envCold envHot userId factId reason) = Inl e"
  by (auto simp: TieredAdapter_upsertFact_def TieredAdapter_updateFact_def TieredAdapter_deleteFact_def
        split: prod.splits sum.splits)

lemma tiered_update_delete_swallow_hot_failure:
  "fst (updateFact (cold t) (snd st) envCold userId factId updates) = Inr updated
     \<Longrightarrow> fst (TieredAdapter_updateFact t st envCold envHot userId factId updates) = Inr updated"
  "fst (deleteFact (cold t) (snd st) envCold userId factId reason) = Inr u
     \<Longrightarrow> fst (TieredAdapter_deleteFact t st envCold envHot userId factId reason) = Inr u"
  by (auto simp: TieredAdapter_updateFact_def TieredAdapter_deleteFact_def
        split: prod.splits sum.splits)

text \<open>In \<open>upsertFact\<close> the hot write is awaited outside any \<open>try\<close>: its failure is the call's.\<close>

lemma tiered_upsert_hot_failure_propagates:
  "fst (upsertFact (cold t) (snd st) envCold userId fa) = Inr saved
     \<Longrightarrow> fst (upsertFact (hot t) (fst st) envHot userId (asInput saved)) = Inl e
     \<Longrightarrow> fst (TieredAdapter_upsertFact t st envCold envHot userId fa) = Inl e"
  by (auto simp: TieredAdapter_upsertFact_def split: prod.splits sum.splits)

text \<open>
  C3 fails for \<open>upsertFact\<close>. With a hot store that is down and an in-memory cold store, the
  first upsert of the fact (User, NAME, John) writes the fact to the cold store and then fails
  with the hot store's error, instead of returning the saved fact.
\<close>

theorem tiered_upsert_hot_failure_not_swallowed:
  "TieredAdapter_upsertFact (TieredAdapter_new DownAdapter InMemoryAdapter testConfig)
      ((), InMemory_empty)
      \<lparr> env_now = 1700000000000, env_uuid = 100 \<rparr> \<lparr> env_now = 1700000000000, env_uuid = 200 \<rparr>
      ''user1'' (testFact ''NAME'' ''John'')
   = (Inl unavailable,
      ((), InMemory_empty(''user1'' :=
         [(100, \<lparr> fid = 100, subject = ''User'', predicate = ''NAME'', object = ''John'',
                  confidence = 9/10, importance = Absent, sentiment = Absent, source = ''test'',
                  createdAt = 1700000000000, updatedAt = 1700000000000, invalidatedAt = None,
                  accessCount = Absent, memoryStage = Absent \<rparr>)])))"
  by (simp add: TieredAdapter_upsertFact_def TieredAdapter_new_def DownAdapter_def InMemoryAdapter_def
        InMemoryAdapter_upsertFact_def InMemory_empty_def Map_values_def newFactOf_def testFact_def
        Let_def)

end
